theory Spec2Isabelle
  imports Complex_Main "HOL-Library.Log_Nat"
begin

section \<open>The reporter of gatsby-cli (packages/gatsby-cli/src/reporter/index.js)\<close>

text \<open>
  The reporter is a facade over four collaborators: the rendering backend
  (\<open>reporterInstance\<close>), the error formatter (\<open>errorFormatter\<close>), the telemetry
  client (\<open>trackError\<close>, \<open>trackCli\<close>) and the tracer. The model threads one
  \<open>world\<close> through every call: the calls made on the collaborators are appended to
  a list of events, the formatter's colour flag and the backend's activities are
  fields of the world. A call either returns, throws or ends the process.
\<close>

subsection \<open>JavaScript values\<close>

text \<open>
  The values the reporter is called with. \<open>JError m\<close> is an instance of
  \<open>Error\<close> whose \<open>message\<close> is \<open>m\<close>; \<open>JObject\<close> is a plain object (its prototype
  is \<open>Object.prototype\<close>) with its own data properties in order. The values are finite
  trees of data: no functions, no accessor properties, no symbols, no proxies, and no
  array or object that holds itself. Numbers are left out: on every path of \<open>error\<close>
  they behave as \<open>JBool\<close> does (a primitive that is neither a string nor an
  object).
\<close>

datatype jsval =
    JUndefined
  | JNull
  | JBool bool
  | JString string
  | JError string
  | JArray "jsval list"
  | JObject "(string \<times> jsval) list"

datatype exn = TypeError

datatype 'a outcome = Returned 'a | Threw exn | Exited nat

text \<open>Reading a property: a \<open>TypeError\<close> on \<open>undefined\<close> and \<open>null\<close>,
  \<open>undefined\<close> where the property is absent. The reporter only reads
  \<open>message\<close>, \<open>context\<close>, \<open>error\<close> and \<open>sourceMessage\<close>, none of which a
  string, a boolean or an array has.\<close>

fun get_prop :: "jsval \<Rightarrow> string \<Rightarrow> exn + jsval" where
  "get_prop JUndefined k = Inl TypeError"
| "get_prop JNull k = Inl TypeError"
| "get_prop (JError m) k = Inr (if k = ''message'' then JString m else JUndefined)"
| "get_prop (JObject kvs) k =
     Inr (case map_of kvs k of None \<Rightarrow> JUndefined | Some v \<Rightarrow> v)"
| "get_prop v k = Inr JUndefined"

text \<open>
  The string a value becomes under \<open>+\<close> with a string. An object is first made a
  primitive: \<open>valueOf\<close> is tried, then \<open>toString\<close>, and a \<open>TypeError\<close> is thrown when
  neither gives a primitive. The values of the model hold no functions, so an own property
  \<open>toString\<close> of a plain object is not callable and hides \<open>Object.prototype.toString\<close>:
  such an object cannot be converted. An array is joined by \<open>Array.prototype.join\<close>, which
  converts every element but \<open>undefined\<close> and \<open>null\<close>; an Error is converted by
  \<open>Error.prototype.toString\<close>.
\<close>

fun join_comma :: "string list \<Rightarrow> string" where
  "join_comma [] = []"
| "join_comma [s] = s"
| "join_comma (s # t # ss) = s @ '','' @ join_comma (t # ss)"

text \<open>The results in order, or the first exception.\<close>

fun collect :: "(exn + 'a) list \<Rightarrow> exn + 'a list" where
  "collect [] = Inr []"
| "collect (Inl e # rs) = Inl e"
| "collect (Inr x # rs) = (case collect rs of Inl e \<Rightarrow> Inl e | Inr xs \<Rightarrow> Inr (x # xs))"

fun toString :: "jsval \<Rightarrow> exn + string" where
  "toString JUndefined = Inr ''undefined''"
| "toString JNull = Inr ''null''"
| "toString (JBool b) = Inr (if b then ''true'' else ''false'')"
| "toString (JString s) = Inr s"
| "toString (JError m) = Inr (if m = [] then ''Error'' else ''Error: '' @ m)"
| "toString (JArray xs) =
     (case collect (map (\<lambda>x. if x = JUndefined \<or> x = JNull then Inr [] else toString x) xs) of
        Inl e \<Rightarrow> Inl e
      | Inr ss \<Rightarrow> Inr (join_comma ss))"
| "toString (JObject kvs) =
     (case map_of kvs ''toString'' of
        None \<Rightarrow> Inr ''[object Object]''
      | Some f \<Rightarrow> Inl TypeError)"

fun truthy :: "jsval \<Rightarrow> bool" where
  "truthy JUndefined = False"
| "truthy JNull = False"
| "truthy (JBool b) = b"
| "truthy (JString s) = (s \<noteq> [])"
| "truthy v = True"

subsection \<open>Collaborators\<close>

text \<open>The result of \<open>process.hrtime()\<close>: seconds and nanoseconds.\<close>

type_synonym hrtime = "int \<times> int"

text \<open>A span of the tracer: its name and the span it is a child of.\<close>

datatype span = Span string "span option"

record structuredError =
  se_context :: jsval
  se_error :: jsval

text \<open>What \<open>error\<close> returns: one structured error, or an array of results.\<close>

datatype result = RSingle structuredError | RMany "result list"

datatype activityType = Spinner | Progress

text \<open>The properties of an activity that \<open>update\<close> may set; \<open>None\<close> is a
  property that is absent.\<close>

record activityFields =
  f_status :: "string option"
  f_startTime :: "hrtime option"
  f_current :: "int option"
  f_total :: "int option"

record activity =
  act_type :: activityType
  act_id :: string
  act_fields :: activityFields
  act_done :: bool

text \<open>The calls on the backend's output verbs, the telemetry client, and the tracer.\<close>

datatype event =
    ReporterError structuredError
  | Log string
  | SetColors bool
  | TrackError string result
  | TrackCli string string int
  | StartSpan string "span option"
  | SpanFinish span

record world =
  fmt_colorless :: bool
  activities :: "activity list"
  events :: "event list"

type_synonym 'a js = "world \<Rightarrow> 'a outcome \<times> world"

definition emit :: "event \<Rightarrow> unit js" where
  "emit e w = (Returned (), w\<lparr>events := events w @ [e]\<rparr>)"

text \<open>
  Modelled from the spec: \<open>constructError\<close> (../structured-errors/construct-error)
  is not under src/. The spec's StructuredError is
  \<open>{ context: { sourceMessage }, error? }\<close>, the normalized details; the model
  carries the \<open>context\<close> and the \<open>error\<close> of the details over unchanged
  (\<open>undefined\<close> where the details have none), and always returns an object.
\<close>

definition constructError :: "(string \<times> jsval) list \<Rightarrow> structuredError" where
  "constructError details =
     \<lparr> se_context = (case map_of details ''context'' of None \<Rightarrow> JUndefined | Some v \<Rightarrow> v),
       se_error = (case map_of details ''error'' of None \<Rightarrow> JUndefined | Some v \<Rightarrow> v) \<rparr>"

text \<open>
  Modelled from the spec: the error formatter (./errors) is not under src/. The spec
  gives it \<open>render(nativeError) \<rightarrow> string\<close> and \<open>withoutColors()\<close>, and a
  colour-stripping flag that \<open>setNoColor\<close> sets. The flag is \<open>fmt_colorless\<close>; what
  \<open>render\<close> draws is a parameter \<open>rnd\<close> of the model, a function of the flag and of
  the error.
\<close>

type_synonym render = "bool \<Rightarrow> jsval \<Rightarrow> string"

definition withoutColors :: "unit js" where
  "withoutColors w = (Returned (), w\<lparr>fmt_colorless := True\<rparr>)"

subsection \<open>\<open>reporter.error\<close>\<close>

text \<open>The end of \<open>error\<close>, lines 87 to 95: build the structured error, hand it
  to the backend, log the rendered stack when it carries an error.\<close>

definition report_details :: "render \<Rightarrow> (string \<times> jsval) list \<Rightarrow> result js" where
  "report_details rnd details w =
     (let structuredError = constructError details;
          w1 = snd (emit (ReporterError structuredError) w);
          w2 = (if truthy (se_error structuredError)
                then snd (emit (Log (rnd (fmt_colorless w1) (se_error structuredError))) w1)
                else w1)
      in (Returned (RSingle structuredError), w2))"

text \<open>\<open>error_map rnd pre items\<close> is \<open>items.map(item => this.error(...pre, item))\<close>:
  the elements in order, stopping at the first that throws.\<close>

function error :: "render \<Rightarrow> jsval list \<Rightarrow> result js"
  and error_map :: "render \<Rightarrow> jsval list \<Rightarrow> jsval list \<Rightarrow> (result list) js"
where
  "error rnd args w =
     (case args of
        [errorMeta, err] \<Rightarrow>
          (case err of
             JArray items \<Rightarrow>
               (case error_map rnd [errorMeta] items w of
                  (Returned rs, w') \<Rightarrow> (Returned (RMany rs), w')
                | (Threw e, w') \<Rightarrow> (Threw e, w')
                | (Exited n, w') \<Rightarrow> (Exited n, w'))
           | _ \<Rightarrow>
               (case toString errorMeta of
                  Inl e \<Rightarrow> (Threw e, w)
                | Inr prefix \<Rightarrow>
                    (case get_prop err ''message'' of
                       Inl e \<Rightarrow> (Threw e, w)
                     | Inr message \<Rightarrow>
                         (case toString message of
                            Inl e \<Rightarrow> (Threw e, w)
                          | Inr msg \<Rightarrow>
                              report_details rnd
                                [(''error'', err),
                                 (''context'', JObject [(''sourceMessage'',
                                    JString (prefix @ '' '' @ msg))])] w))))
      | [errorMeta] \<Rightarrow>
          (case errorMeta of
             JError m \<Rightarrow>
               report_details rnd
                 [(''error'', errorMeta),
                  (''context'', JObject [(''sourceMessage'', JString m)])] w
           | JArray items \<Rightarrow>
               (case error_map rnd [] items w of
                  (Returned rs, w') \<Rightarrow> (Returned (RMany rs), w')
                | (Threw e, w') \<Rightarrow> (Threw e, w')
                | (Exited n, w') \<Rightarrow> (Exited n, w'))
           | JObject kvs \<Rightarrow> report_details rnd kvs w
           | JNull \<Rightarrow> report_details rnd [] w
           | JString s \<Rightarrow>
               report_details rnd
                 [(''context'', JObject [(''sourceMessage'', JString s)])] w
           | _ \<Rightarrow> report_details rnd [] w)
      | _ \<Rightarrow> report_details rnd [] w)"
| "error_map rnd pre [] w = (Returned [], w)"
| "error_map rnd pre (item # items) w =
     (case error rnd (pre @ [item]) w of
        (Returned r, w') \<Rightarrow>
          (case error_map rnd pre items w' of
             (Returned rs, w'') \<Rightarrow> (Returned (r # rs), w'')
           | (Threw e, w'') \<Rightarrow> (Threw e, w'')
           | (Exited n, w'') \<Rightarrow> (Exited n, w''))
      | (Threw e, w') \<Rightarrow> (Threw e, w')
      | (Exited n, w') \<Rightarrow> (Exited n, w'))"
  by pat_completeness auto
termination
  by (relation "measures
        [(\<lambda>x. case x of Inl (rnd, args, w) \<Rightarrow> size_list size args
                      | Inr (rnd, pre, items, w) \<Rightarrow> size_list size pre + size_list size items),
         (\<lambda>x. case x of Inl _ \<Rightarrow> 0 | Inr _ \<Rightarrow> 1)]")
     auto

declare error.simps [simp del]

subsection \<open>\<open>setNoColor\<close>, \<open>panic\<close>, \<open>panicOnBuild\<close>\<close>

text \<open>\<open>setNoColor(isNoColor = false)\<close>: the argument is \<open>None\<close> when the caller
  gives none. The backend is handed \<open>isNoColor\<close> itself.\<close>

definition setNoColor :: "bool option \<Rightarrow> unit js" where
  "setNoColor arg w =
     (let isNoColor = (case arg of None \<Rightarrow> False | Some b \<Rightarrow> b);
          w1 = snd (emit (SetColors isNoColor) w)
      in if isNoColor then withoutColors w1 else (Returned (), w1))"

definition panic :: "render \<Rightarrow> jsval list \<Rightarrow> unit js" where
  "panic rnd args w =
     (case error rnd args w of
        (Returned err, w1) \<Rightarrow> (Exited 1, snd (emit (TrackError ''GENERAL_PANIC'' err) w1))
      | (Threw e, w1) \<Rightarrow> (Threw e, w1)
      | (Exited n, w1) \<Rightarrow> (Exited n, w1))"

text \<open>\<open>env\<close> is \<open>process.env.gatsby_executing_command\<close>, \<open>None\<close> when unset.\<close>

definition panicOnBuild :: "string option \<Rightarrow> render \<Rightarrow> jsval list \<Rightarrow> unit js" where
  "panicOnBuild env rnd args w =
     (case error rnd args w of
        (Returned err, w1) \<Rightarrow>
          (let w2 = snd (emit (TrackError ''BUILD_PANIC'' err) w1)
           in if env = Some ''build'' then (Exited 1, w2) else (Returned (), w2))
      | (Threw e, w1) \<Rightarrow> (Threw e, w1)
      | (Exited n, w1) \<Rightarrow> (Exited n, w1))"

text \<open>A sequence of calls on the reporter. A call that throws leaves the process
  running (its caller may catch); a call that exits ends the run.\<close>

datatype call =
    CallSetNoColor "bool option"
  | CallError "jsval list"
  | CallPanic "jsval list"
  | CallPanicOnBuild "jsval list"

fun exited :: "'a outcome \<Rightarrow> bool" where
  "exited (Exited n) = True"
| "exited out = False"

fun run_call :: "string option \<Rightarrow> render \<Rightarrow> call \<Rightarrow> world \<Rightarrow> bool \<times> world" where
  "run_call env rnd (CallSetNoColor arg) w =
     (case setNoColor arg w of (out, w') \<Rightarrow> (exited out, w'))"
| "run_call env rnd (CallError args) w =
     (case error rnd args w of (out, w') \<Rightarrow> (exited out, w'))"
| "run_call env rnd (CallPanic args) w =
     (case panic rnd args w of (out, w') \<Rightarrow> (exited out, w'))"
| "run_call env rnd (CallPanicOnBuild args) w =
     (case panicOnBuild env rnd args w of (out, w') \<Rightarrow> (exited out, w'))"

fun run_calls :: "string option \<Rightarrow> render \<Rightarrow> call list \<Rightarrow> world \<Rightarrow> world" where
  "run_calls env rnd [] w = w"
| "run_calls env rnd (c # cs) w =
     (case run_call env rnd c w of
        (True, w') \<Rightarrow> w'
      | (False, w') \<Rightarrow> run_calls env rnd cs w')"

subsection \<open>The rendering backend's activities\<close>

text \<open>
  Modelled from the spec: the rendering backend (./reporters) is not under src/. The
  spec gives it \<open>createActivity({type, id, status|current/total}) \<rightarrow> {update(partial),
  done()}\<close> and the Activity \<open>{ id, kind, status, startTime, current, total }\<close>, created
  by \<open>createActivity\<close>, mutated by \<open>update\<close> and marked done by \<open>done\<close>. The model
  keeps the activities in a store, in order of creation; the object that
  \<open>createActivity\<close> returns is its position there. \<open>update\<close> sets the properties
  that the partial object has.
\<close>

definition no_fields :: activityFields where
  "no_fields = \<lparr> f_status = None, f_startTime = None, f_current = None, f_total = None \<rparr>"

definition createActivity :: "activityType \<Rightarrow> string \<Rightarrow> activityFields \<Rightarrow> nat js" where
  "createActivity ty ident fs w =
     (Returned (length (activities w)),
      w\<lparr>activities := activities w @
           [\<lparr> act_type = ty, act_id = ident, act_fields = fs, act_done = False \<rparr>]\<rparr>)"

definition merge_fields :: "activityFields \<Rightarrow> activityFields \<Rightarrow> activityFields" where
  "merge_fields partial fs =
     \<lparr> f_status = (case f_status partial of None \<Rightarrow> f_status fs | Some v \<Rightarrow> Some v),
       f_startTime = (case f_startTime partial of None \<Rightarrow> f_startTime fs | Some v \<Rightarrow> Some v),
       f_current = (case f_current partial of None \<Rightarrow> f_current fs | Some v \<Rightarrow> Some v),
       f_total = (case f_total partial of None \<Rightarrow> f_total fs | Some v \<Rightarrow> Some v) \<rparr>"

definition activity_update :: "nat \<Rightarrow> activityFields \<Rightarrow> unit js" where
  "activity_update h partial w =
     (Returned (),
      if h < length (activities w)
      then w\<lparr>activities := (activities w)
             [h := (activities w ! h)\<lparr>act_fields := merge_fields partial (act_fields (activities w ! h))\<rparr>]\<rparr>
      else w)"

definition activity_done :: "nat \<Rightarrow> unit js" where
  "activity_done h w =
     (Returned (),
      if h < length (activities w)
      then w\<lparr>activities := (activities w)[h := (activities w ! h)\<lparr>act_done := True\<rparr>]\<rparr>
      else w)"

text \<open>The ids of the activities that are live: created and not yet done.\<close>

definition live_ids :: "world \<Rightarrow> string list" where
  "live_ids w = map act_id (filter (\<lambda>a. \<not> act_done a) (activities w))"

text \<open>\<open>tracer.startSpan(name, spanArgs)\<close>.\<close>

definition startSpan :: "string \<Rightarrow> span option \<Rightarrow> span js" where
  "startSpan name childOf w = (Returned (Span name childOf), snd (emit (StartSpan name childOf) w))"

subsection \<open>Numbers\<close>

text \<open>
  A JavaScript number is a double: a mantissa of 53 bits and a power of two. The model
  holds a number that is an integer as an \<open>int\<close> and the quotient of two numbers as a
  \<open>real\<close>, and rounds what an operation gives to the nearest double, a tie going to the
  even mantissa. Every integer up to \<open>2^53\<close> in magnitude is a double. Numbers beyond the
  largest double, and quotients below the smallest normal one, do not occur in the reporter
  and are not modelled.
\<close>

text \<open>\<open>p / q\<close> to the nearest integer, a tie to the even one, for \<open>0 < q\<close>.\<close>

definition rne :: "int \<Rightarrow> int \<Rightarrow> int" where
  "rne p q =
     (let k = p div q; r = p mod q
      in if 2 * r < q then k else if q < 2 * r then k + 1 else if even k then k else k + 1)"

text \<open>The double nearest to an integer: above \<open>2^53\<close>, the doubles are the multiples of
  \<open>u\<close>, the power of two that leaves 53 bits.\<close>

definition double_of_int :: "int \<Rightarrow> int" where
  "double_of_int n =
     (if \<bar>n\<bar> \<le> 9007199254740992 then n
      else let u = 2 ^ nat (bitlen \<bar>n\<bar> - 53) in sgn n * (rne \<bar>n\<bar> u * u))"

text \<open>The double nearest to \<open>n / d\<close>, for \<open>0 < d\<close>: \<open>e\<close> is the exponent of the
  quotient (\<open>2^e \<le> |n| / d < 2^(e+1)\<close>), and the doubles near it are the multiples of
  \<open>2^(e-52)\<close>.\<close>

definition double_div :: "int \<Rightarrow> int \<Rightarrow> real" where
  "double_div n d =
     (if n = 0 then 0
      else let a = \<bar>n\<bar>;
               k = bitlen a - bitlen d;
               e = (if (if 0 \<le> k then d * 2 ^ nat k \<le> a else d \<le> a * 2 ^ nat (- k))
                    then k else k - 1);
               s = e - 52
           in real_of_int (sgn n) *
              (if 0 \<le> s then real_of_int (rne a (d * 2 ^ nat s) * 2 ^ nat s)
               else real_of_int (rne (a * 2 ^ nat (- s)) d) / 2 ^ nat (- s)))"

subsection \<open>Time\<close>

text \<open>
  \<open>process.hrtime(time)\<close> at the moment the clock reads \<open>now\<close>: the difference to
  \<open>time\<close>, with a borrow from the seconds when the nanoseconds are negative, each
  operation on doubles. Node throws a \<open>TypeError\<close> when \<open>time\<close> is not an array;
  \<open>None\<close> is the \<open>0\<close> that \<open>startTime\<close> holds before \<open>start()\<close>.
\<close>

definition hrtime_since :: "hrtime option \<Rightarrow> hrtime \<Rightarrow> exn + hrtime" where
  "hrtime_since time now =
     (case time of
        None \<Rightarrow> Inl TypeError
      | Some t \<Rightarrow>
          (let sec = double_of_int (fst now - fst t); nsec = double_of_int (snd now - snd t)
           in Inr (if nsec < 0 then (double_of_int (sec - 1), double_of_int (nsec + 1000000000))
                   else (sec, nsec))))"

text \<open>\<open>convertHrtime(hrtime)\<close>: the nanoseconds are \<open>hrtime[0] * 1e9 + hrtime[1]\<close>, the
  milliseconds are the nanoseconds divided by \<open>1e6\<close>, each operation on doubles.
  \<open>Math.round\<close> is \<open>round\<close>: the nearest integer, a half rounded up.\<close>

definition convertHrtime_nanoseconds :: "hrtime \<Rightarrow> int" where
  "convertHrtime_nanoseconds h = double_of_int (double_of_int (fst h * 1000000000) + snd h)"

definition convertHrtime_milliseconds :: "hrtime \<Rightarrow> real" where
  "convertHrtime_milliseconds h = double_div (convertHrtime_nanoseconds h) 1000000"

subsection \<open>\<open>activityTimer\<close>\<close>

text \<open>The variables that the tracker's methods close over.\<close>

record timer =
  tm_name :: string
  tm_span :: span
  tm_startTime :: "hrtime option"
  tm_activity :: nat

text \<open>\<open>activityArgs\<close> is given by its \<open>parentSpan\<close>, \<open>None\<close> when it has none.
  \<open>startTime\<close> is \<open>None\<close> while it holds the initial \<open>0\<close>.\<close>

definition activityTimer :: "string \<Rightarrow> span option \<Rightarrow> timer js" where
  "activityTimer name parentSpan w =
     (case startSpan name parentSpan w of
        (Returned span', w1) \<Rightarrow>
          (case createActivity Spinner name (no_fields\<lparr>f_status := Some []\<rparr>) w1 of
             (Returned activity, w2) \<Rightarrow>
               (Returned \<lparr> tm_name = name, tm_span = span', tm_startTime = None,
                           tm_activity = activity \<rparr>, w2)
           | (Threw e, w2) \<Rightarrow> (Threw e, w2)
           | (Exited n, w2) \<Rightarrow> (Exited n, w2))
      | (Threw e, w1) \<Rightarrow> (Threw e, w1)
      | (Exited n, w1) \<Rightarrow> (Exited n, w1))"

text \<open>The methods \<open>start\<close>, \<open>setStatus\<close> and \<open>end\<close> of the tracker. \<open>now\<close> is what the
  clock reads when the method runs; each method returns the variables as it leaves them.\<close>

definition timer_start :: "hrtime \<Rightarrow> timer \<Rightarrow> timer js" where
  "timer_start now t w =
     (Returned (t\<lparr>tm_startTime := Some now\<rparr>),
      snd (activity_update (tm_activity t) (no_fields\<lparr>f_startTime := Some now\<rparr>) w))"

definition timer_setStatus :: "string \<Rightarrow> timer \<Rightarrow> timer js" where
  "timer_setStatus status t w =
     (Returned t, snd (activity_update (tm_activity t) (no_fields\<lparr>f_status := Some status\<rparr>) w))"

definition timer_end :: "hrtime \<Rightarrow> timer \<Rightarrow> timer js" where
  "timer_end now t w =
     (case hrtime_since (tm_startTime t) now of
        Inl e \<Rightarrow> (Threw e, w)
      | Inr elapsed \<Rightarrow>
          (let w1 = snd (emit (TrackCli ''ACTIVITY_DURATION'' (tm_name t)
                                 (round (convertHrtime_milliseconds elapsed))) w);
               w2 = snd (emit (SpanFinish (tm_span t)) w1);
               w3 = snd (activity_done (tm_activity t) w2)
           in (Returned t, w3)))"

subsection \<open>\<open>createProgress\<close>\<close>

record progress =
  pg_name :: string
  pg_span :: span
  pg_hasStarted :: bool
  pg_current :: int
  pg_total :: int
  pg_activity :: nat

text \<open>\<open>createProgress(name, total, start = 0, activityArgs = {})\<close>; \<open>start\<close> is \<open>None\<close>
  when the caller gives none. The counts are numbers that are integers; every integer from
  \<open>-2^53\<close> to \<open>2^53\<close> is one.\<close>

definition createProgress :: "string \<Rightarrow> int \<Rightarrow> int option \<Rightarrow> span option \<Rightarrow> progress js" where
  "createProgress name total' start parentSpan w =
     (case startSpan name parentSpan w of
        (Returned span', w1) \<Rightarrow>
          (let current = (case start of None \<Rightarrow> 0 | Some s \<Rightarrow> s)
           in case createActivity Progress name
                     (no_fields\<lparr>f_current := Some current, f_total := Some total'\<rparr>) w1 of
                (Returned activity, w2) \<Rightarrow>
                  (Returned \<lparr> pg_name = name, pg_span = span', pg_hasStarted = False,
                              pg_current = current, pg_total = total',
                              pg_activity = activity \<rparr>, w2)
              | (Threw e, w2) \<Rightarrow> (Threw e, w2)
              | (Exited n, w2) \<Rightarrow> (Exited n, w2))
      | (Threw e, w1) \<Rightarrow> (Threw e, w1)
      | (Exited n, w1) \<Rightarrow> (Exited n, w1))"

text \<open>The methods \<open>start\<close>, \<open>setStatus\<close>, \<open>tick\<close> and \<open>done\<close> and the setter of
  \<open>total\<close>. \<open>++current\<close> adds 1 as doubles do: from \<open>2^53\<close> on the count does not
  move.\<close>

definition progress_start :: "hrtime \<Rightarrow> progress \<Rightarrow> progress js" where
  "progress_start now p w =
     (if pg_hasStarted p then (Returned p, w)
      else (Returned (p\<lparr>pg_hasStarted := True\<rparr>),
            snd (activity_update (pg_activity p) (no_fields\<lparr>f_startTime := Some now\<rparr>) w)))"

definition progress_setStatus :: "string \<Rightarrow> progress \<Rightarrow> progress js" where
  "progress_setStatus status p w =
     (Returned p, snd (activity_update (pg_activity p) (no_fields\<lparr>f_status := Some status\<rparr>) w))"

definition progress_tick :: "progress \<Rightarrow> progress js" where
  "progress_tick p w =
     (let current = double_of_int (pg_current p + 1)
      in (Returned (p\<lparr>pg_current := current\<rparr>),
          snd (activity_update (pg_activity p) (no_fields\<lparr>f_current := Some current\<rparr>) w)))"

definition progress_done :: "progress \<Rightarrow> progress js" where
  "progress_done p w =
     (let w1 = snd (emit (SpanFinish (pg_span p)) w)
      in (Returned p, snd (activity_done (pg_activity p) w1)))"

definition progress_set_total :: "int \<Rightarrow> progress \<Rightarrow> progress js" where
  "progress_set_total v p w =
     (Returned (p\<lparr>pg_total := v\<rparr>),
      snd (activity_update (pg_activity p) (no_fields\<lparr>f_total := Some v\<rparr>) w))"

text \<open>Calls on a progress tracker, one after the other. None of them throws.\<close>

datatype progress_op = PStart hrtime | PSetStatus string | PTick | PDone | PSetTotal int

fun progress_apply :: "progress_op \<Rightarrow> progress \<times> world \<Rightarrow> progress \<times> world" where
  "progress_apply c (p, w) =
     (case (case c of
              PStart now \<Rightarrow> progress_start now p w
            | PSetStatus s \<Rightarrow> progress_setStatus s p w
            | PTick \<Rightarrow> progress_tick p w
            | PDone \<Rightarrow> progress_done p w
            | PSetTotal v \<Rightarrow> progress_set_total v p w) of
        (Returned p', w') \<Rightarrow> (p', w')
      | (out, w') \<Rightarrow> (p, w'))"

fun progress_run :: "progress_op list \<Rightarrow> progress \<times> world \<Rightarrow> progress \<times> world" where
  "progress_run [] pw = pw"
| "progress_run (c # cs) pw = progress_run cs (progress_apply c pw)"

section \<open>Notions that the properties are stated with\<close>

text \<open>The world before the reporter is first called.\<close>

definition world0 :: world where
  "world0 = \<lparr> fmt_colorless = False, activities = [], events = [] \<rparr>"

text \<open>What \<open>process.hrtime()\<close> can return: seconds that are not negative and a
  double, nanoseconds from 0 to 999999999; and the reading as nanoseconds.\<close>

definition clock_reading :: "hrtime \<Rightarrow> bool" where
  "clock_reading t =
     (0 \<le> fst t \<and> fst t \<le> 9007199254740992 \<and> 0 \<le> snd t \<and> snd t < 1000000000)"

definition nanoseconds_of :: "hrtime \<Rightarrow> int" where
  "nanoseconds_of t = fst t * 1000000000 + snd t"

text \<open>An ANSI colour code starts with the escape character and a bracket.\<close>

definition ESC :: char where "ESC = CHR 0x1B"

fun has_ansi :: "string \<Rightarrow> bool" where
  "has_ansi (a # b # s) = ((a = ESC \<and> b = CHR ''['') \<or> has_ansi (b # s))"
| "has_ansi s = False"

text \<open>A formatter for the examples: the text of the error without escape characters, in
  red unless the colour-stripping flag is set.\<close>

definition sample_render :: render where
  "sample_render colorless e =
     (let text = filter (\<lambda>c. c \<noteq> ESC) (case toString e of Inl x \<Rightarrow> [] | Inr t \<Rightarrow> t)
      in if colorless then text else [ESC] @ ''[31m'' @ text @ [ESC] @ ''[39m'')"

text \<open>\<open>context.sourceMessage\<close>, read from the context; \<open>undefined\<close> where there is
  no context to read it from.\<close>

definition context_sourceMessage :: "jsval \<Rightarrow> jsval" where
  "context_sourceMessage ctx =
     (case get_prop ctx ''sourceMessage'' of Inl e \<Rightarrow> JUndefined | Inr v \<Rightarrow> v)"

fun nonempty_string :: "jsval \<Rightarrow> bool" where
  "nonempty_string (JString s) = (s \<noteq> [])"
| "nonempty_string v = False"

text \<open>Every structured error of a result has a non-empty string as its
  \<open>context.sourceMessage\<close>.\<close>

fun sourceMessages_nonempty :: "result \<Rightarrow> bool" where
  "sourceMessages_nonempty (RSingle se) = nonempty_string (context_sourceMessage (se_context se))"
| "sourceMessages_nonempty (RMany rs) = list_all sourceMessages_nonempty rs"

fun is_Error :: "jsval \<Rightarrow> bool" where
  "is_Error (JError m) = True"
| "is_Error v = False"

fun is_string_or_Error :: "jsval \<Rightarrow> bool" where
  "is_string_or_Error (JString s) = True"
| "is_string_or_Error (JError m) = True"
| "is_string_or_Error v = False"

text \<open>The supported shapes of the arguments of \<open>error\<close>: one string, one Error, one
  array of strings and Errors, one plain object, a prefix with an Error, a prefix with an
  array of Errors.\<close>

fun supported :: "jsval list \<Rightarrow> bool" where
  "supported [JString s] = True"
| "supported [JError m] = True"
| "supported [JArray xs] = list_all is_string_or_Error xs"
| "supported [JObject kvs] = True"
| "supported [JString prefix, JError m] = True"
| "supported [JString prefix, JArray es] = list_all is_Error es"
| "supported args = False"

text \<open>The message that a single argument gives is not empty: the string itself, the
  \<open>message\<close> of the Error, the \<open>context.sourceMessage\<close> of the plain object.\<close>

fun message_given :: "jsval \<Rightarrow> bool" where
  "message_given (JString s) = (s \<noteq> [])"
| "message_given (JError m) = (m \<noteq> [])"
| "message_given (JObject kvs) =
     nonempty_string (context_sourceMessage
       (case map_of kvs ''context'' of None \<Rightarrow> JUndefined | Some v \<Rightarrow> v))"
| "message_given v = False"

fun messages_given :: "jsval list \<Rightarrow> bool" where
  "messages_given [JArray xs] = list_all message_given xs"
| "messages_given [x] = message_given x"
| "messages_given args = True"

text \<open>The value cannot be converted to a string: a plain object with an own property
  \<open>toString\<close>, or an array that holds such a value at some depth.\<close>

fun no_string :: "jsval \<Rightarrow> bool" where
  "no_string (JObject kvs) = (map_of kvs ''toString'' \<noteq> None)"
| "no_string (JArray xs) = list_ex (\<lambda>x. x \<noteq> JUndefined \<and> x \<noteq> JNull \<and> no_string x) xs"
| "no_string v = False"

text \<open>The \<open>message\<close> of a value that is not \<open>null\<close> or \<open>undefined\<close>.\<close>

definition message_of :: "jsval \<Rightarrow> jsval" where
  "message_of err = (case get_prop err ''message'' of Inl e \<Rightarrow> JUndefined | Inr m \<Rightarrow> m)"

text \<open>The second of two arguments, or one of its elements at some depth when it is an
  array, is \<open>null\<close> or \<open>undefined\<close>, or meets a first argument or has a \<open>message\<close> that
  cannot be converted to a string.\<close>

fun throws_two :: "jsval \<Rightarrow> jsval \<Rightarrow> bool" where
  "throws_two errorMeta JUndefined = True"
| "throws_two errorMeta JNull = True"
| "throws_two errorMeta (JArray items) = list_ex (throws_two errorMeta) items"
| "throws_two errorMeta err = (no_string errorMeta \<or> no_string (message_of err))"

fun throws_on :: "jsval list \<Rightarrow> bool" where
  "throws_on [] = False"
| "throws_on [errorMeta] = False"
| "throws_on [errorMeta, err] = throws_two errorMeta err"
| "throws_on (errorMeta # err # x # xs) = False"

text \<open>The strings that were logged, in order.\<close>

fun logs :: "event list \<Rightarrow> string list" where
  "logs [] = []"
| "logs (Log s # es) = s # logs es"
| "logs (e # es) = logs es"

section \<open>Properties\<close>

subsection \<open>What \<open>error\<close> does on each shape of its arguments\<close>

lemma error_two_array:
  "error rnd [errorMeta, JArray items] w =
     (case error_map rnd [errorMeta] items w of
        (Returned rs, w') \<Rightarrow> (Returned (RMany rs), w')
      | (Threw e, w') \<Rightarrow> (Threw e, w')
      | (Exited n, w') \<Rightarrow> (Exited n, w'))"
  by (simp add: error.simps)

lemma error_one_array:
  "error rnd [JArray items] w =
     (case error_map rnd [] items w of
        (Returned rs, w') \<Rightarrow> (Returned (RMany rs), w')
      | (Threw e, w') \<Rightarrow> (Threw e, w')
      | (Exited n, w') \<Rightarrow> (Exited n, w'))"
  by (simp add: error.simps)

lemma error_two_Error:
  "error rnd [JString prefix, JError m] w =
     report_details rnd
       [(''error'', JError m),
        (''context'', JObject [(''sourceMessage'', JString (prefix @ '' '' @ m))])] w"
  by (simp add: error.simps)

lemma error_one_Error:
  "error rnd [JError m] w =
     report_details rnd
       [(''error'', JError m), (''context'', JObject [(''sourceMessage'', JString m)])] w"
  by (simp add: error.simps)

lemma error_one_string:
  "error rnd [JString s] w =
     report_details rnd [(''context'', JObject [(''sourceMessage'', JString s)])] w"
  by (simp add: error.simps)

lemma error_one_object:
  "error rnd [JObject kvs] w = report_details rnd kvs w"
  by (simp add: error.simps)

lemma error_two_other:
  "\<forall>items. err \<noteq> JArray items \<Longrightarrow>
   error rnd [errorMeta, err] w =
     (case toString errorMeta of
        Inl e \<Rightarrow> (Threw e, w)
      | Inr prefix \<Rightarrow>
          (case get_prop err ''message'' of
             Inl e \<Rightarrow> (Threw e, w)
           | Inr message \<Rightarrow>
               (case toString message of
                  Inl e \<Rightarrow> (Threw e, w)
                | Inr msg \<Rightarrow>
                    report_details rnd
                      [(''error'', err),
                       (''context'', JObject [(''sourceMessage'',
                          JString (prefix @ '' '' @ msg))])] w)))"
  by (cases err) (auto simp: error.simps)

lemma error_one_other:
  "\<forall>items. errorMeta \<noteq> JArray items \<Longrightarrow>
   \<exists>details. error rnd [errorMeta] w = report_details rnd details w"
  by (cases errorMeta) (auto simp: error.simps)

lemma error_other_arity:
  "length args \<noteq> 1 \<Longrightarrow> length args \<noteq> 2 \<Longrightarrow> error rnd args w = report_details rnd [] w"
  by (cases args rule: throws_on.cases) (simp_all add: error.simps)

lemma report_details_eq:
  "report_details rnd details w =
     (Returned (RSingle (constructError details)),
      w\<lparr>events := events w @ ReporterError (constructError details) #
           (if truthy (se_error (constructError details))
            then [Log (rnd (fmt_colorless w) (se_error (constructError details)))] else [])\<rparr>)"
  by (simp add: report_details_def emit_def Let_def)

subsection \<open>Results of \<open>error\<close>\<close>

text \<open>Claim C2. For every string \<open>prefix\<close> and every two Errors, \<open>error(prefix, [errA, errB])\<close>
  returns an array of two structured errors, in the order of the array; the
  \<open>context.sourceMessage\<close> of the i-th is \<open>prefix + " " + message\<close> of the i-th Error. Each
  is handed to the backend and its stack is logged, in that order.\<close>

theorem error_prefix_two_Errors:
  "error rnd [JString prefix, JArray [JError a, JError b]] w =
     (Returned (RMany
        [RSingle \<lparr> se_context = JObject [(''sourceMessage'', JString (prefix @ '' '' @ a))],
                   se_error = JError a \<rparr>,
         RSingle \<lparr> se_context = JObject [(''sourceMessage'', JString (prefix @ '' '' @ b))],
                   se_error = JError b \<rparr>]),
      w\<lparr>events := events w @
          [ReporterError \<lparr> se_context = JObject [(''sourceMessage'', JString (prefix @ '' '' @ a))],
                           se_error = JError a \<rparr>,
           Log (rnd (fmt_colorless w) (JError a)),
           ReporterError \<lparr> se_context = JObject [(''sourceMessage'', JString (prefix @ '' '' @ b))],
                           se_error = JError b \<rparr>,
           Log (rnd (fmt_colorless w) (JError b))]\<rparr>)"
  by (simp add: error_two_array error_two_Error report_details_eq constructError_def)

text \<open>Claim C2, at the prefix \<open>Failed:\<close> and the messages \<open>a\<close> and \<open>b\<close>.\<close>

theorem error_prefix_two_Errors_witness:
  "fst (error sample_render [JString ''Failed:'', JArray [JError ''a'', JError ''b'']] world0) =
     Returned (RMany
       [RSingle \<lparr> se_context = JObject [(''sourceMessage'', JString ''Failed: a'')],
                  se_error = JError ''a'' \<rparr>,
        RSingle \<lparr> se_context = JObject [(''sourceMessage'', JString ''Failed: b'')],
                  se_error = JError ''b'' \<rparr>])"
  using error_prefix_two_Errors [of sample_render "''Failed:''" "''a''" "''b''" world0]
  by simp

lemma error_map_strings_or_Errors:
  "list_all is_string_or_Error xs \<Longrightarrow> list_all message_given xs \<Longrightarrow>
   \<exists>rs w'. error_map rnd [] xs w = (Returned rs, w') \<and> list_all sourceMessages_nonempty rs"
proof (induction xs arbitrary: w)
  case Nil
  then show ?case by simp
next
  case (Cons x xs)
  from Cons.prems have x: "is_string_or_Error x" "message_given x"
    and xs: "list_all is_string_or_Error xs" "list_all message_given xs" by simp_all
  from x obtain r w1 where r: "error rnd [x] w = (Returned r, w1)" "sourceMessages_nonempty r"
    by (cases x) (auto simp: error_one_string error_one_Error report_details_eq constructError_def
          context_sourceMessage_def)
  from Cons.IH[OF xs, of w1] obtain rs w2 where
    "error_map rnd [] xs w1 = (Returned rs, w2)" "list_all sourceMessages_nonempty rs" by blast
  with r show ?case by (simp add:)
qed

lemma error_map_prefix_Errors:
  "list_all is_Error xs \<Longrightarrow>
   \<exists>rs w'. error_map rnd [JString p] xs w = (Returned rs, w') \<and> list_all sourceMessages_nonempty rs"
proof (induction xs arbitrary: w)
  case Nil
  then show ?case by simp
next
  case (Cons x xs)
  from Cons.prems have x: "is_Error x" and xs: "list_all is_Error xs" by simp_all
  from x obtain r w1 where r: "error rnd [JString p, x] w = (Returned r, w1)" "sourceMessages_nonempty r"
    by (cases x) (auto simp: error_two_Error report_details_eq constructError_def
          context_sourceMessage_def)
  from Cons.IH[OF xs, of w1] obtain rs w2 where
    "error_map rnd [JString p] xs w1 = (Returned rs, w2)" "list_all sourceMessages_nonempty rs" by blast
  with r show ?case by (simp add:)
qed

text \<open>Claim C1, as the code has it. For every supported shape of the arguments (one string,
  one Error, one array of strings and Errors, one plain object, a prefix with an Error, a
  prefix with an array of Errors), \<open>error\<close> returns a structured error, or an array of
  them, whose \<open>context.sourceMessage\<close> is a non-empty string, provided the message
  that is given is not empty: the string, the Error's \<open>message\<close>, the
  \<open>context.sourceMessage\<close> of the plain object. With a prefix it is never empty.\<close>

theorem error_sourceMessage_nonempty:
  assumes "supported args" and "messages_given args"
  shows "\<exists>r w'. error rnd args w = (Returned r, w') \<and> sourceMessages_nonempty r"
  using assms
proof (induction args rule: supported.induct)
  case (3 xs)
  then obtain rs w' where "error_map rnd [] xs w = (Returned rs, w')" "list_all sourceMessages_nonempty rs"
    using error_map_strings_or_Errors[of xs rnd w] by auto
  then show ?case by (simp add: error_one_array)
next
  case (6 prefix es)
  then obtain rs w' where "error_map rnd [JString prefix] es w = (Returned rs, w')" "list_all sourceMessages_nonempty rs"
    using error_map_prefix_Errors[of es rnd prefix w] by auto
  then show ?case by (simp add: error_two_array)
qed (auto simp: error_one_string error_one_Error error_one_object error_two_Error
       report_details_eq constructError_def context_sourceMessage_def)

text \<open>Claim C1, as the code has it, at an array of a string and an Error.\<close>

theorem error_sourceMessage_nonempty_witness:
  "supported [JArray [JString ''a'', JError ''b'']] \<and> messages_given [JArray [JString ''a'', JError ''b'']] \<and>
   (\<exists>r w'. error sample_render [JArray [JString ''a'', JError ''b'']] world0 = (Returned r, w') \<and> sourceMessages_nonempty r)"
  using error_sourceMessage_nonempty [of "[JArray [JString ''a'', JError ''b'']]" sample_render world0]
  by simp

text \<open>Claim C1 fails as stated: the empty string is a supported input, and the
  \<open>sourceMessage\<close> of the result is the empty string.\<close>

theorem error_empty_string_counterexample:
  "supported [JString []] \<and>
   fst (error sample_render [JString []] world0) =
     Returned (RSingle \<lparr> se_context = JObject [(''sourceMessage'', JString [])], se_error = JUndefined \<rparr>) \<and>
   \<not> sourceMessages_nonempty
       (RSingle \<lparr> se_context = JObject [(''sourceMessage'', JString [])], se_error = JUndefined \<rparr>)"
  by (simp add: error_one_string report_details_eq constructError_def context_sourceMessage_def)

subsection \<open>When \<open>error\<close> throws\<close>

lemma collect_Inl: "\<exists>e. Inl e \<in> set rs \<Longrightarrow> collect rs = Inl TypeError"
proof (induction rs rule: collect.induct)
  case (2 e rs)
  then show ?case by (cases e) simp
qed auto

lemma collect_Inr: "\<forall>r\<in>set rs. \<exists>x. r = Inr x \<Longrightarrow> \<exists>xs. collect rs = Inr xs"
  by (induction rs rule: collect.induct) auto

lemma toString_no_string:
  "(no_string v \<longrightarrow> toString v = Inl TypeError) \<and> (\<not> no_string v \<longrightarrow> (\<exists>s. toString v = Inr s))"
proof (induction v)
  case (JArray xs)
  let ?f = "\<lambda>x. if x = JUndefined \<or> x = JNull then Inr [] else toString x"
  show ?case
  proof (cases "no_string (JArray xs)")
    case True
    then obtain x where x: "x \<in> set xs" "x \<noteq> JUndefined" "x \<noteq> JNull" "no_string x"
      by (auto simp: list_ex_iff)
    with JArray have fx: "?f x = Inl TypeError" by simp
    from x(1) have "?f x \<in> set (map ?f xs)" by (rule imageI[of x "set xs" ?f, folded set_map])
    with fx have "Inl TypeError \<in> set (map ?f xs)" by (simp only:)
    then have "\<exists>e. Inl e \<in> set (map ?f xs)" by blast
    then have "collect (map ?f xs) = Inl TypeError" by (rule collect_Inl)
    with True show ?thesis by simp
  next
    case False
    then have "\<forall>x\<in>set xs. x = JUndefined \<or> x = JNull \<or> \<not> no_string x"
      by (auto simp: list_ex_iff)
    with JArray have "\<forall>r\<in>set (map ?f xs). \<exists>s. r = Inr s" by auto
    then obtain ss where "collect (map ?f xs) = Inr ss" using collect_Inr by blast
    with False show ?thesis by simp
  qed
next
  case (JObject kvs)
  show ?case by (cases "map_of kvs ''toString''") simp_all
qed simp_all

lemma error_two_plain_throws:
  assumes "\<forall>items. err \<noteq> JArray items" and "throws_two errorMeta err"
  shows "error rnd [errorMeta, err] w = (Threw TypeError, w)"
proof (cases "no_string errorMeta")
  case True
  with toString_no_string[of errorMeta] assms(1) show ?thesis
    by (simp add: error_two_other)
next
  case False
  then obtain prefix where p: "toString errorMeta = Inr prefix"
    using toString_no_string[of errorMeta] by blast
  show ?thesis
  proof (cases "err = JUndefined \<or> err = JNull")
    case True
    with p show ?thesis by (auto simp: error.simps)
  next
    case nn: False
    then obtain m where m: "get_prop err ''message'' = Inr m" by (cases err) auto
    with nn False assms have "no_string m" by (cases err) (auto simp: message_of_def)
    with toString_no_string[of m] have "toString m = Inl TypeError" by simp
    with p m assms(1) show ?thesis by (simp add: error_two_other)
  qed
qed

lemma error_two_plain_returns:
  assumes "\<forall>items. err \<noteq> JArray items" and "\<not> throws_two errorMeta err"
  shows "\<exists>details. error rnd [errorMeta, err] w = report_details rnd details w"
proof -
  from assms have nn: "err \<noteq> JUndefined" "err \<noteq> JNull" by auto
  with assms have ns: "\<not> no_string errorMeta" "\<not> no_string (message_of err)"
    by (cases err; simp)+
  from ns(1) obtain prefix where p: "toString errorMeta = Inr prefix"
    using toString_no_string[of errorMeta] by blast
  from nn obtain m where m: "get_prop err ''message'' = Inr m" by (cases err) auto
  with ns(2) obtain msg where "toString m = Inr msg"
    using toString_no_string[of m] by (auto simp: message_of_def)
  with p m assms(1) show ?thesis by (auto simp: error_two_other)
qed










subsection \<open>\<open>panicOnBuild\<close>\<close>

text \<open>Claim C3, as the code has it. For every argument list on which \<open>error\<close> returns,
  \<open>panicOnBuild\<close> reports the error as \<open>error\<close> does, records one
  \<open>BUILD_PANIC\<close> telemetry event with the result, and ends the process with status 1 if
  and only if \<open>gatsby_executing_command\<close> is \<open>build\<close>; otherwise it returns.\<close>

theorem panicOnBuild_exits_iff_build:
  assumes "error rnd args w = (Returned r, w1)"
  shows "panicOnBuild env rnd args w =
           (if env = Some ''build'' then Exited 1 else Returned (),
            w1\<lparr>events := events w1 @ [TrackError ''BUILD_PANIC'' r]\<rparr>)"
  using assms by (simp add: panicOnBuild_def emit_def)

text \<open>Claim C3, as the code has it, at one string, for \<open>build\<close>, for \<open>develop\<close> and with the variable unset.\<close>

theorem panicOnBuild_exits_iff_build_witness:
  "error sample_render [JString ''x''] world0 =
     (Returned (RSingle \<lparr> se_context = JObject [(''sourceMessage'', JString ''x'')],
                           se_error = JUndefined \<rparr>),
      world0\<lparr>events := [ReporterError \<lparr> se_context = JObject [(''sourceMessage'', JString ''x'')],
                                          se_error = JUndefined \<rparr>]\<rparr>) \<and>
   fst (panicOnBuild (Some ''build'') sample_render [JString ''x''] world0) = Exited 1 \<and>
   fst (panicOnBuild (Some ''develop'') sample_render [JString ''x''] world0) = Returned () \<and>
   fst (panicOnBuild None sample_render [JString ''x''] world0) = Returned ()"
  using panicOnBuild_exits_iff_build
    [of sample_render "[JString ''x'']" world0
        "RSingle \<lparr> se_context = JObject [(''sourceMessage'', JString ''x'')], se_error = JUndefined \<rparr>"
        "world0\<lparr>events := [ReporterError \<lparr> se_context = JObject [(''sourceMessage'', JString ''x'')],
                                            se_error = JUndefined \<rparr>]\<rparr>"]
  by (simp add: error_one_string report_details_eq constructError_def world0_def)

text \<open>Claim C3 fails as stated: during a build, with \<open>undefined\<close> as the second of two
  arguments, \<open>error\<close> throws; no telemetry event is recorded and the process is not ended
  by the call.\<close>

theorem panicOnBuild_throws_counterexample:
  "panicOnBuild (Some ''build'') sample_render [JString ''x'', JUndefined] world0 = (Threw TypeError, world0)"
  by (simp add: panicOnBuild_def error.simps)

subsection \<open>Trackers\<close>

subsubsection \<open>Doubles\<close>

lemma bitlen_million: "bitlen 1000000 = 20"
  by (rule antisym) (simp_all add: bitlen_le_iff_power bitlen_ge_iff_power)

lemma rne_error:
  assumes q: "0 < q"
  shows "\<bar>real_of_int (rne p q) - real_of_int p / real_of_int q\<bar> \<le> 1 / 2"
proof -
  define k where "k = p div q"
  define r where "r = p mod q"
  define x where "x = real_of_int r / real_of_int q"
  have p: "p = k * q + r" unfolding k_def r_def by (rule div_mult_mod_eq[symmetric])
  have r: "0 \<le> r" "r < q" using q by (simp_all add: r_def)
  have pq: "real_of_int p / real_of_int q = real_of_int k + x"
    using q by (simp add: p x_def field_simps)
  have x: "0 \<le> x" "x < 1" using q r by (simp_all add: x_def field_simps)
  consider (lo) "2 * r < q" | (hi) "q < 2 * r" | (tie) "q = 2 * r" by linarith
  then show ?thesis
  proof cases
    case lo
    then have "rne p q = k" by (simp add: rne_def Let_def k_def r_def)
    moreover from lo q have "x \<le> 1 / 2" by (simp add: x_def field_simps)
    ultimately show ?thesis using x pq by simp
  next
    case hi
    then have "rne p q = k + 1" by (simp add: rne_def Let_def k_def r_def)
    moreover from hi q have "1 / 2 \<le> x" by (simp add: x_def field_simps)
    ultimately show ?thesis using x pq by simp
  next
    case tie
    then have "rne p q = k \<or> rne p q = k + 1" by (simp add: rne_def Let_def k_def r_def)
    moreover from tie q have "x = 1 / 2" by (simp add: x_def field_simps)
    ultimately show ?thesis using pq by auto
  qed
qed

lemma rne_exact:
  assumes "0 < q" and "q dvd p"
  shows "real_of_int (rne p q) = real_of_int p / real_of_int q"
proof -
  from assms have "p mod q = 0" by simp
  with assms(1) have "rne p q = p div q" by (simp add: rne_def Let_def)
  with assms(2) show ?thesis by (simp add: real_of_int_div)
qed


lemma double_of_int_exact: "\<bar>n\<bar> \<le> 9007199254740992 \<Longrightarrow> double_of_int n = n"
  by (simp add: double_of_int_def)

lemma scaled_error:
  fixes M q T :: real
  assumes "\<bar>M - q * T\<bar> \<le> 1 / 2" and "524288 \<le> T"
  shows "\<bar>M / T - q\<bar> \<le> 1 / 1048576"
proof -
  from assms(2) have T: "0 < T" by simp
  then have "M / T - q = (M - q * T) / T" by (simp add: field_simps)
  then have "\<bar>M / T - q\<bar> = \<bar>M - q * T\<bar> / T" using T by (simp add: abs_divide)
  also have "\<dots> \<le> (1 / 2) / T" using assms(1) T by (intro divide_right_mono) simp_all
  also have "\<dots> \<le> (1 / 2) / 524288" using assms(2) by (intro divide_left_mono) simp_all
  finally show ?thesis by simp
qed


lemma round_double_div:
  assumes "0 \<le> n" and "n < 9007199254740992"
  shows "round (double_div n 1000000) = round (real_of_int n / 1000000)"
proof (cases "n = 0")
  case True
  then show ?thesis by (simp add: double_div_def)
next
  case False
  with assms have n: "0 < n" by simp
  define k where "k = bitlen n - 20"
  define e where "e = (if (if 0 \<le> k then 1000000 * 2 ^ nat k \<le> n else 1000000 \<le> n * 2 ^ nat (- k))
                    then k else k - 1)"
  define t where "t = nat (- (e - 52))"
  have "bitlen n \<le> 53" using assms by (simp add: bitlen_le_iff_power)
  then have "k \<le> 33" by (simp add: k_def)
  then have "e \<le> 33" by (simp add: e_def)
  then have t: "19 \<le> t" and s: "\<not> 0 \<le> e - 52" by (simp_all add: t_def)
  define P where "P = n * 2 ^ t"
  define M where "M = rne P 1000000"
  define q where "q = real_of_int n / 1000000"
  define fl where "fl = real_of_int M / 2 ^ t"
  have "double_div n 1000000 =
          real_of_int (sgn n) *
            (if 0 \<le> e - 52 then real_of_int (rne n (1000000 * 2 ^ nat (e - 52)) * 2 ^ nat (e - 52))
             else real_of_int (rne (n * 2 ^ t) 1000000) / 2 ^ t)"
    unfolding double_div_def Let_def e_def k_def t_def bitlen_million abs_of_pos[OF n]
    using False by (simp only: if_False)
  with s n have fl: "double_div n 1000000 = fl"
    by (simp only: if_False fl_def M_def P_def) simp
  have T: "(524288::real) \<le> 2 ^ t"
    using power_increasing[OF t, of "2::real"] by simp
  have Pq: "real_of_int P / real_of_int 1000000 = q * 2 ^ t" by (simp add: P_def q_def)
  have "\<bar>real_of_int M - real_of_int P / real_of_int 1000000\<bar> \<le> 1 / 2"
    unfolding M_def by (rule rne_error) simp
  then have "\<bar>real_of_int M - q * 2 ^ t\<bar> \<le> 1 / 2" by (simp only: Pq)
  from scaled_error[OF this T] have err: "\<bar>fl - q\<bar> \<le> 1 / 1048576" by (simp only: fl_def)
  define z where "z = round q"
  have z: "q - 1 / 2 < real_of_int z" "real_of_int z \<le> q + 1 / 2"
    by (simp_all add: z_def of_int_round_gt of_int_round_le)
  have qn: "q * 1000000 = real_of_int n" by (simp add: q_def)
  have "real_of_int n < real_of_int ((2 * z + 1) * 500000)"
    using z(1) qn by (simp; linarith)
  then have "n < (2 * z + 1) * 500000" by (simp only: of_int_less_iff)
  then have "n + 1 \<le> (2 * z + 1) * 500000" by simp
  then have "real_of_int (n + 1) \<le> real_of_int ((2 * z + 1) * 500000)"
    by (simp only: of_int_le_iff)
  then have up: "q \<le> real_of_int z + 1 / 2 - 1 / 1000000"
    using qn by (simp; linarith)
  have "real_of_int ((2 * z - 1) * 500000) \<le> real_of_int n"
    using z(2) qn by (simp; linarith)
  then have lo: "(2 * z - 1) * 500000 \<le> n" by (simp only: of_int_le_iff)
  have "fl - 1 / 2 < real_of_int z \<and> real_of_int z \<le> fl + 1 / 2"
  proof (cases "n = (2 * z - 1) * 500000")
    case True
    from t obtain t' where t': "t = Suc t'" by (cases t) simp_all
    have "P = 1000000 * ((2 * z - 1) * 2 ^ t')" by (simp add: P_def True t')
    then have "1000000 dvd P" by (simp only: dvd_triv_left)
    from rne_exact[OF _ this] have "real_of_int M = real_of_int P / real_of_int 1000000"
      by (simp add: M_def)
    then have "real_of_int M = q * 2 ^ t" by (simp only: Pq)
    then have "fl = q" by (simp add: fl_def)
    with z show ?thesis by simp
  next
    case False
    with lo have "(2 * z - 1) * 500000 + 1 \<le> n" by simp
    then have "real_of_int ((2 * z - 1) * 500000 + 1) \<le> real_of_int n"
      by (simp only: of_int_le_iff)
    then have "real_of_int z - 1 / 2 + 1 / 1000000 \<le> q"
      using qn by (simp; linarith)
    with up err show ?thesis by (simp add: abs_le_iff; linarith)
  qed
  then have "round fl = z" by (intro round_unique) simp_all
  then show ?thesis by (simp only: fl z_def q_def)
qed

lemma hrtime_since_exact:
  assumes "clock_reading t0" and "clock_reading t1"
    and "0 \<le> nanoseconds_of t1 - nanoseconds_of t0"
    and "nanoseconds_of t1 - nanoseconds_of t0 < 9007199254740992"
  shows "\<exists>d. hrtime_since (Some t0) t1 = Inr d \<and>
             convertHrtime_nanoseconds d = nanoseconds_of t1 - nanoseconds_of t0"
proof -
  obtain s0 n0 where t0: "t0 = (s0, n0)" by (cases t0)
  obtain s1 n1 where t1: "t1 = (s1, n1)" by (cases t1)
  from assms(1,2) have r: "0 \<le> s0" "s0 \<le> 9007199254740992" "0 \<le> n0" "n0 < 1000000000"
    "0 \<le> s1" "s1 \<le> 9007199254740992" "0 \<le> n1" "n1 < 1000000000"
    by (simp_all add: clock_reading_def t0 t1)
  from assms(3,4) have D: "0 \<le> (s1 - s0) * 1000000000 + (n1 - n0)"
    "(s1 - s0) * 1000000000 + (n1 - n0) < 9007199254740992"
    by (simp_all add: nanoseconds_of_def t0 t1 algebra_simps)
  have sec: "double_of_int (s1 - s0) = s1 - s0" using r by (intro double_of_int_exact) simp
  have nsec: "double_of_int (n1 - n0) = n1 - n0" using r by (intro double_of_int_exact) simp
  show ?thesis
  proof (cases "n1 - n0 < 0")
    case True
    with D have s: "1 \<le> s1 - s0" by simp
    have a: "double_of_int (s1 - s0 - 1) = s1 - s0 - 1"
      using r s by (intro double_of_int_exact) simp
    have b: "double_of_int (n1 - n0 + 1000000000) = n1 - n0 + 1000000000"
      using r by (intro double_of_int_exact) simp
    have h: "hrtime_since (Some t0) t1 = Inr (s1 - s0 - 1, n1 - n0 + 1000000000)"
      using True by (simp add: hrtime_since_def t0 t1 Let_def sec nsec a b)
    have c: "double_of_int ((s1 - s0 - 1) * 1000000000) = (s1 - s0 - 1) * 1000000000"
      using D s r by (intro double_of_int_exact) simp
    have e: "double_of_int ((s1 - s0 - 1) * 1000000000 + (n1 - n0 + 1000000000)) =
             (s1 - s0 - 1) * 1000000000 + (n1 - n0 + 1000000000)"
      using D by (intro double_of_int_exact) simp
    have "convertHrtime_nanoseconds (s1 - s0 - 1, n1 - n0 + 1000000000) =
            (s1 - s0) * 1000000000 + (n1 - n0)"
      by (simp only: convertHrtime_nanoseconds_def fst_conv snd_conv c e)
         (simp add: algebra_simps)
    with h show ?thesis by (simp add: nanoseconds_of_def t0 t1 algebra_simps)
  next
    case False
    with D r have s: "0 \<le> s1 - s0" by simp
    have h: "hrtime_since (Some t0) t1 = Inr (s1 - s0, n1 - n0)"
      using False by (simp add: hrtime_since_def t0 t1 Let_def sec nsec)
    have c: "double_of_int ((s1 - s0) * 1000000000) = (s1 - s0) * 1000000000"
      using D s False by (intro double_of_int_exact) simp
    have e: "double_of_int ((s1 - s0) * 1000000000 + (n1 - n0)) =
             (s1 - s0) * 1000000000 + (n1 - n0)"
      using D by (intro double_of_int_exact) simp
    have "convertHrtime_nanoseconds (s1 - s0, n1 - n0) = (s1 - s0) * 1000000000 + (n1 - n0)"
      by (simp only: convertHrtime_nanoseconds_def fst_conv snd_conv c e)
    with h show ?thesis by (simp add: nanoseconds_of_def t0 t1 algebra_simps)
  qed
qed

text \<open>Two values of the doubles: the quotient \<open>1 / 10\<close>, and a duration beyond the
  range of the lemmas above, where the nanoseconds 9007200000499999 are not a double and
  the code reports a millisecond more than exact arithmetic gives.\<close>

lemma double_div_tenth: "double_div 1 10 = 3602879701896397 / 36028797018963968"
proof -
  have a: "bitlen 1 = 1"
    by (rule antisym) (simp_all add: bitlen_le_iff_power bitlen_ge_iff_power)
  have b: "bitlen 10 = 4"
    by (rule antisym) (simp_all add: bitlen_le_iff_power bitlen_ge_iff_power)
  show ?thesis by (simp add: double_div_def rne_def Let_def a b)
qed

lemma duration_beyond_range:
  "round (convertHrtime_milliseconds (9007200, 499999)) = 9007200001 \<and>
   round (real_of_int (nanoseconds_of (9007200, 499999)) / 1000000) = 9007200000"
proof -
  have a: "bitlen 9007200000499999 = 54"
    by (rule antisym) (simp_all add: bitlen_le_iff_power bitlen_ge_iff_power)
  have b: "bitlen 9007200000500000 = 54"
    by (rule antisym) (simp_all add: bitlen_le_iff_power bitlen_ge_iff_power)
  have c: "bitlen 9007200000000000 = 54"
    by (rule antisym) (simp_all add: bitlen_le_iff_power bitlen_ge_iff_power)
  have d1: "double_of_int 9007200000000000 = 9007200000000000"
    by (simp add: double_of_int_def rne_def Let_def c)
  have d2: "double_of_int 9007200000499999 = 9007200000500000"
    by (simp add: double_of_int_def rne_def Let_def a)
  have ns: "convertHrtime_nanoseconds (9007200, 499999) = 9007200000500000"
    by (simp add: convertHrtime_nanoseconds_def d1 d2)
  have dd: "double_div 9007200000500000 1000000 = 18014400001 / 2"
    by (simp add: double_div_def rne_def Let_def b bitlen_million)
  have "round (18014400001 / 2 :: real) = 9007200001" by (simp add: round_def)
  then have "round (convertHrtime_milliseconds (9007200, 499999)) = 9007200001"
    by (simp only: convertHrtime_milliseconds_def ns dd)
  moreover have "round (real_of_int (nanoseconds_of (9007200, 499999)) / 1000000) = 9007200000"
    by (simp add: nanoseconds_of_def round_def)
  ultimately show ?thesis by simp
qed

subsubsection \<open>The calls of the factories\<close>

lemma activityTimer_eq:
  "activityTimer name parentSpan w =
     (Returned \<lparr> tm_name = name, tm_span = Span name parentSpan, tm_startTime = None,
                 tm_activity = length (activities w) \<rparr>,
      w\<lparr>events := events w @ [StartSpan name parentSpan],
        activities := activities w @
          [\<lparr> act_type = Spinner, act_id = name,
             act_fields = \<lparr> f_status = Some [], f_startTime = None, f_current = None, f_total = None \<rparr>,
             act_done = False \<rparr>]\<rparr>)"
  by (simp add: activityTimer_def startSpan_def emit_def createActivity_def no_fields_def)

lemma createProgress_eq:
  "createProgress name total' start parentSpan w =
     (Returned \<lparr> pg_name = name, pg_span = Span name parentSpan, pg_hasStarted = False,
                 pg_current = (case start of None \<Rightarrow> 0 | Some s \<Rightarrow> s), pg_total = total',
                 pg_activity = length (activities w) \<rparr>,
      w\<lparr>events := events w @ [StartSpan name parentSpan],
        activities := activities w @
          [\<lparr> act_type = Progress, act_id = name,
             act_fields = \<lparr> f_status = None, f_startTime = None,
                            f_current = Some (case start of None \<Rightarrow> 0 | Some s \<Rightarrow> s),
                            f_total = Some total' \<rparr>,
             act_done = False \<rparr>]\<rparr>)"
  by (simp add: createProgress_def startSpan_def emit_def createActivity_def no_fields_def Let_def)

text \<open>Claim C4, as the code has it. For every name, on a tracker returned by
  \<open>activityTimer(name)\<close> on which \<open>start()\<close> has been called, one call to \<open>end()\<close> records
  exactly one \<open>ACTIVITY_DURATION\<close> telemetry event under that name, whose duration is the
  time since the last \<open>start()\<close> in milliseconds, rounded; finishes the tracker's span once;
  and marks the activity done. This holds for the readings of a clock between which less
  than \<open>2^53\<close> nanoseconds (some 104 days) have passed: there the doubles of the code give
  the rounded quotient of exact arithmetic.\<close>

theorem timer_end_emits_duration_once:
  assumes "activityTimer name parentSpan w = (Returned t, w1)"
    and "timer_start t0 t w2 = (Returned t', w3)"
    and "tm_activity t < length (activities w4)"
    and "clock_reading t0" and "clock_reading t1"
    and "0 \<le> nanoseconds_of t1 - nanoseconds_of t0"
    and "nanoseconds_of t1 - nanoseconds_of t0 < 9007199254740992"
  shows "timer_end t1 t' w4 =
           (Returned t',
            w4\<lparr>events := events w4 @
                 [TrackCli ''ACTIVITY_DURATION'' name
                    (round (real_of_int (nanoseconds_of t1 - nanoseconds_of t0) / 1000000)),
                  SpanFinish (tm_span t)],
               activities := (activities w4)
                 [tm_activity t := (activities w4 ! tm_activity t)\<lparr>act_done := True\<rparr>]\<rparr>)"
proof -
  from assms(1) have t: "tm_name t = name" by (auto simp: activityTimer_eq)
  from assms(2) have t': "t' = t\<lparr>tm_startTime := Some t0\<rparr>" by (auto simp: timer_start_def)
  from hrtime_since_exact[OF assms(4-7)] obtain d where d: "hrtime_since (Some t0) t1 = Inr d"
    and ns: "convertHrtime_nanoseconds d = nanoseconds_of t1 - nanoseconds_of t0" by blast
  have ms: "round (convertHrtime_milliseconds d) =
          round (real_of_int (nanoseconds_of t1 - nanoseconds_of t0) / 1000000)"
    unfolding convertHrtime_milliseconds_def ns by (rule round_double_div[OF assms(6,7)])
  have "timer_end t1 t' w4 =
          (Returned t',
           w4\<lparr>events := events w4 @
                [TrackCli ''ACTIVITY_DURATION'' name (round (convertHrtime_milliseconds d)),
                 SpanFinish (tm_span t)],
              activities := (activities w4)
                [tm_activity t := (activities w4 ! tm_activity t)\<lparr>act_done := True\<rparr>]\<rparr>)"
    using d t t' assms(3) by (simp add: timer_end_def emit_def activity_done_def Let_def)
  then show ?thesis by (simp only: ms)
qed

text \<open>Claim C4, as the code has it, at the name \<open>x\<close>: 1000.500001 milliseconds are reported as 1001.\<close>

theorem timer_end_emits_duration_once_witness:
  "activityTimer ''x'' None world0 =
     (Returned \<lparr> tm_name = ''x'', tm_span = Span ''x'' None, tm_startTime = None, tm_activity = 0 \<rparr>,
      world0\<lparr>events := [StartSpan ''x'' None],
             activities := [\<lparr> act_type = Spinner, act_id = ''x'',
                              act_fields = \<lparr> f_status = Some [], f_startTime = None,
                                             f_current = None, f_total = None \<rparr>,
                              act_done = False \<rparr>]\<rparr>) \<and>
   fst (timer_start (1, 999999999)
          \<lparr> tm_name = ''x'', tm_span = Span ''x'' None, tm_startTime = None, tm_activity = 0 \<rparr>
          (snd (activityTimer ''x'' None world0))) =
     Returned \<lparr> tm_name = ''x'', tm_span = Span ''x'' None, tm_startTime = Some (1, 999999999),
                tm_activity = 0 \<rparr> \<and>
   clock_reading (1, 999999999) \<and> clock_reading (3, 500000) \<and>
   nanoseconds_of (3, 500000) - nanoseconds_of (1, 999999999) = 1000500001 \<and>
   events (snd (timer_end (3, 500000)
          \<lparr> tm_name = ''x'', tm_span = Span ''x'' None, tm_startTime = Some (1, 999999999),
             tm_activity = 0 \<rparr>
          (snd (activityTimer ''x'' None world0)))) =
     [StartSpan ''x'' None, TrackCli ''ACTIVITY_DURATION'' ''x'' 1001, SpanFinish (Span ''x'' None)] \<and>
   map act_done (activities (snd (timer_end (3, 500000)
          \<lparr> tm_name = ''x'', tm_span = Span ''x'' None, tm_startTime = Some (1, 999999999),
             tm_activity = 0 \<rparr>
          (snd (activityTimer ''x'' None world0))))) = [True]"
  using timer_end_emits_duration_once
    [of "''x''" None world0
        "\<lparr> tm_name = ''x'', tm_span = Span ''x'' None, tm_startTime = None, tm_activity = 0 \<rparr>"
        "snd (activityTimer ''x'' None world0)"
        "(1, 999999999)"
        "snd (activityTimer ''x'' None world0)"
        "\<lparr> tm_name = ''x'', tm_span = Span ''x'' None, tm_startTime = Some (1, 999999999),
           tm_activity = 0 \<rparr>"
        "snd (timer_start (1, 999999999)
          \<lparr> tm_name = ''x'', tm_span = Span ''x'' None, tm_startTime = None, tm_activity = 0 \<rparr>
          (snd (activityTimer ''x'' None world0)))"
        "snd (activityTimer ''x'' None world0)"
        "(3, 500000)"]
  by (simp add: activityTimer_eq world0_def timer_start_def clock_reading_def nanoseconds_of_def
        round_def)

text \<open>Claim C4 fails as stated: on the tracker as \<open>activityTimer\<close> returns it, \<open>startTime\<close>
  is still \<open>0\<close>, \<open>process.hrtime(0)\<close> throws, and \<open>end()\<close> records no event and
  finishes no span.\<close>

theorem timer_end_before_start_counterexample:
  "fst (activityTimer ''x'' None world0) =
     Returned \<lparr> tm_name = ''x'', tm_span = Span ''x'' None, tm_startTime = None, tm_activity = 0 \<rparr> \<and>
   timer_end (3, 500000)
     \<lparr> tm_name = ''x'', tm_span = Span ''x'' None, tm_startTime = None, tm_activity = 0 \<rparr>
     (snd (activityTimer ''x'' None world0)) =
     (Threw TypeError, snd (activityTimer ''x'' None world0)) \<and>
   events (snd (activityTimer ''x'' None world0)) = [StartSpan ''x'' None]"
  by (simp add: activityTimer_eq world0_def timer_end_def hrtime_since_def)

lemma progress_apply_inv:
  assumes "progress_apply c (p, w) = (p', w')"
  shows "pg_activity p' = pg_activity p"
    and "length (activities w') = length (activities w)"
    and "pg_hasStarted p \<Longrightarrow> pg_hasStarted p'"
    and "pg_hasStarted p \<Longrightarrow>
           f_startTime (act_fields (activities w' ! pg_activity p)) =
           f_startTime (act_fields (activities w ! pg_activity p))"
  using assms
  by (cases c;
      auto simp: progress_start_def progress_setStatus_def progress_tick_def progress_done_def
        progress_set_total_def activity_update_def activity_done_def emit_def merge_fields_def
        no_fields_def Let_def split: if_splits)+

lemma progress_run_inv:
  assumes "progress_run cs (p, w) = (p', w')" and "pg_hasStarted p"
  shows "pg_hasStarted p' \<and> pg_activity p' = pg_activity p \<and>
         f_startTime (act_fields (activities w' ! pg_activity p)) =
         f_startTime (act_fields (activities w ! pg_activity p))"
  using assms
proof (induction cs arbitrary: p w)
  case Nil
  then show ?case by simp
next
  case (Cons c cs)
  obtain p1 w1 where step: "progress_apply c (p, w) = (p1, w1)" by (cases "progress_apply c (p, w)")
  with Cons.prems have run: "progress_run cs (p1, w1) = (p', w')" by simp
  from progress_apply_inv[OF step] Cons.prems(2)
  have inv: "pg_activity p1 = pg_activity p" "pg_hasStarted p1"
    "f_startTime (act_fields (activities w1 ! pg_activity p)) =
     f_startTime (act_fields (activities w ! pg_activity p))" by simp_all
  from Cons.IH[OF run inv(2)] inv show ?case by simp
qed

text \<open>Claim C5. On a progress tracker, a call to \<open>start()\<close> after the first one, whatever
  calls come in between, changes nothing: the tracker and the world are as before, and the
  start time that the backend holds is the one of the first call. On a spinner tracker,
  every call to \<open>start()\<close> sets \<open>startTime\<close> to the time of the call, in the tracker and
  in the backend's activity.\<close>

theorem start_idempotent_for_progress_only:
  "(progress_start t1 p w = (Returned p1, w1) \<and> progress_run cs (p1, w1) = (p2, w2) \<longrightarrow>
      progress_start t2 p2 w2 = (Returned p2, w2) \<and>
      f_startTime (act_fields (activities w2 ! pg_activity p)) =
      f_startTime (act_fields (activities w1 ! pg_activity p))) \<and>
   fst (timer_start now t wt) = Returned (t\<lparr>tm_startTime := Some now\<rparr>) \<and>
   (tm_activity t < length (activities wt) \<longrightarrow>
      f_startTime (act_fields (activities (snd (timer_start now t wt)) ! tm_activity t)) = Some now)"
proof (intro conjI impI)
  assume a: "progress_start t1 p w = (Returned p1, w1) \<and> progress_run cs (p1, w1) = (p2, w2)"
  then have p1: "pg_hasStarted p1" "pg_activity p1 = pg_activity p"
    by (auto simp: progress_start_def split: if_splits)
  from a have run: "progress_run cs (p1, w1) = (p2, w2)" by simp
  from progress_run_inv[OF run p1(1)] p1(2)
  show "progress_start t2 p2 w2 = (Returned p2, w2)"
    and "f_startTime (act_fields (activities w2 ! pg_activity p)) =
         f_startTime (act_fields (activities w1 ! pg_activity p))"
    by (simp_all add: progress_start_def)
next
  show "fst (timer_start now t wt) = Returned (t\<lparr>tm_startTime := Some now\<rparr>)"
    by (simp add: timer_start_def)
next
  assume "tm_activity t < length (activities wt)"
  then show "f_startTime (act_fields (activities (snd (timer_start now t wt)) ! tm_activity t)) = Some now"
    by (simp add: timer_start_def activity_update_def merge_fields_def no_fields_def)
qed

text \<open>Claim C5, on a progress tracker started at 5 s and again at 9 s with a tick in between,
  and on a spinner tracker started at 5 s and again at 9 s.\<close>

theorem start_idempotent_for_progress_only_witness:
  "progress_start (5, 0)
     \<lparr> pg_name = ''y'', pg_span = Span ''y'' None, pg_hasStarted = False, pg_current = 0,
       pg_total = 10, pg_activity = 0 \<rparr>
     (snd (createProgress ''y'' 10 None None world0)) =
     (Returned \<lparr> pg_name = ''y'', pg_span = Span ''y'' None, pg_hasStarted = True, pg_current = 0,
                 pg_total = 10, pg_activity = 0 \<rparr>,
      \<lparr> fmt_colorless = False,
        activities = [\<lparr> act_type = Progress, act_id = ''y'',
                         act_fields = \<lparr> f_status = None, f_startTime = Some (5, 0),
                                        f_current = Some 0, f_total = Some 10 \<rparr>,
                         act_done = False \<rparr>],
        events = [StartSpan ''y'' None] \<rparr>) \<and>
   progress_run [PTick]
     (\<lparr> pg_name = ''y'', pg_span = Span ''y'' None, pg_hasStarted = True, pg_current = 0,
        pg_total = 10, pg_activity = 0 \<rparr>,
      \<lparr> fmt_colorless = False,
        activities = [\<lparr> act_type = Progress, act_id = ''y'',
                         act_fields = \<lparr> f_status = None, f_startTime = Some (5, 0),
                                        f_current = Some 0, f_total = Some 10 \<rparr>,
                         act_done = False \<rparr>],
        events = [StartSpan ''y'' None] \<rparr>) =
     (\<lparr> pg_name = ''y'', pg_span = Span ''y'' None, pg_hasStarted = True, pg_current = 1,
        pg_total = 10, pg_activity = 0 \<rparr>,
      \<lparr> fmt_colorless = False,
        activities = [\<lparr> act_type = Progress, act_id = ''y'',
                         act_fields = \<lparr> f_status = None, f_startTime = Some (5, 0),
                                        f_current = Some 1, f_total = Some 10 \<rparr>,
                         act_done = False \<rparr>],
        events = [StartSpan ''y'' None] \<rparr>) \<and>
   progress_start (9, 0)
     \<lparr> pg_name = ''y'', pg_span = Span ''y'' None, pg_hasStarted = True, pg_current = 1,
       pg_total = 10, pg_activity = 0 \<rparr>
     \<lparr> fmt_colorless = False,
       activities = [\<lparr> act_type = Progress, act_id = ''y'',
                        act_fields = \<lparr> f_status = None, f_startTime = Some (5, 0),
                                       f_current = Some 1, f_total = Some 10 \<rparr>,
                        act_done = False \<rparr>],
       events = [StartSpan ''y'' None] \<rparr> =
     (Returned \<lparr> pg_name = ''y'', pg_span = Span ''y'' None, pg_hasStarted = True, pg_current = 1,
                 pg_total = 10, pg_activity = 0 \<rparr>,
      \<lparr> fmt_colorless = False,
        activities = [\<lparr> act_type = Progress, act_id = ''y'',
                         act_fields = \<lparr> f_status = None, f_startTime = Some (5, 0),
                                        f_current = Some 1, f_total = Some 10 \<rparr>,
                         act_done = False \<rparr>],
        events = [StartSpan ''y'' None] \<rparr>) \<and>
   f_startTime (act_fields (activities (snd (timer_start (9, 0)
       \<lparr> tm_name = ''x'', tm_span = Span ''x'' None, tm_startTime = Some (5, 0), tm_activity = 0 \<rparr>
       (snd (timer_start (5, 0)
          \<lparr> tm_name = ''x'', tm_span = Span ''x'' None, tm_startTime = None, tm_activity = 0 \<rparr>
          (snd (activityTimer ''x'' None world0)))))) ! 0)) = Some (9, 0)"
  using start_idempotent_for_progress_only
    [where ?t1.0 = "(5, 0)"
       and p = "\<lparr> pg_name = ''y'', pg_span = Span ''y'' None, pg_hasStarted = False, pg_current = 0,
           pg_total = 10, pg_activity = 0 \<rparr>"
       and w = "snd (createProgress ''y'' 10 None None world0)"
       and ?p1.0 = "\<lparr> pg_name = ''y'', pg_span = Span ''y'' None, pg_hasStarted = True, pg_current = 0,
           pg_total = 10, pg_activity = 0 \<rparr>"
       and ?w1.0 = "\<lparr> fmt_colorless = False,
           activities = [\<lparr> act_type = Progress, act_id = ''y'',
                            act_fields = \<lparr> f_status = None, f_startTime = Some (5, 0),
                                           f_current = Some 0, f_total = Some 10 \<rparr>,
                            act_done = False \<rparr>],
           events = [StartSpan ''y'' None] \<rparr>"
       and cs = "[PTick]"
       and ?p2.0 = "\<lparr> pg_name = ''y'', pg_span = Span ''y'' None, pg_hasStarted = True, pg_current = 1,
           pg_total = 10, pg_activity = 0 \<rparr>"
       and ?w2.0 = "\<lparr> fmt_colorless = False,
           activities = [\<lparr> act_type = Progress, act_id = ''y'',
                            act_fields = \<lparr> f_status = None, f_startTime = Some (5, 0),
                                           f_current = Some 1, f_total = Some 10 \<rparr>,
                            act_done = False \<rparr>],
           events = [StartSpan ''y'' None] \<rparr>"
       and ?t2.0 = "(9, 0)" and now = "(9, 0)"
       and t = "\<lparr> tm_name = ''x'', tm_span = Span ''x'' None, tm_startTime = Some (5, 0), tm_activity = 0 \<rparr>"
       and wt = "snd (timer_start (5, 0)
          \<lparr> tm_name = ''x'', tm_span = Span ''x'' None, tm_startTime = None, tm_activity = 0 \<rparr>
          (snd (activityTimer ''x'' None world0)))"]
  by (simp add: createProgress_eq activityTimer_eq world0_def progress_start_def progress_tick_def
        timer_start_def activity_update_def merge_fields_def no_fields_def Let_def
        double_of_int_def)

lemma progress_tick_exact:
  assumes "- 9007199254740992 \<le> pg_current p" and "pg_current p + 1 \<le> 9007199254740992"
  shows "progress_tick p w =
           (Returned (p\<lparr>pg_current := pg_current p + 1\<rparr>),
            snd (activity_update (pg_activity p)
                   (no_fields\<lparr>f_current := Some (pg_current p + 1)\<rparr>) w))"
proof -
  from assms have "double_of_int (pg_current p + 1) = pg_current p + 1"
    by (intro double_of_int_exact) simp
  then show ?thesis by (simp add: progress_tick_def Let_def)
qed

lemma progress_apply_current:
  assumes "progress_apply c (p, w) = (p', w')"
    and "pg_activity p < length (activities w)"
    and "f_current (act_fields (activities w ! pg_activity p)) = Some (pg_current p)"
    and "- 9007199254740992 \<le> pg_current p"
    and "pg_current p + (if c = PTick then 1 else 0) \<le> 9007199254740992"
  shows "pg_current p' = pg_current p + (if c = PTick then 1 else 0) \<and>
         pg_activity p' = pg_activity p \<and> pg_activity p < length (activities w') \<and>
         f_current (act_fields (activities w' ! pg_activity p)) = Some (pg_current p')"
proof (cases c)
  case PTick
  with assms(4,5) have "progress_tick p w =
      (Returned (p\<lparr>pg_current := pg_current p + 1\<rparr>),
       snd (activity_update (pg_activity p) (no_fields\<lparr>f_current := Some (pg_current p + 1)\<rparr>) w))"
    by (simp add: progress_tick_exact)
  with assms(1-3) PTick show ?thesis
    by (auto simp: activity_update_def merge_fields_def no_fields_def)
qed (use assms in \<open>auto simp: progress_start_def progress_setStatus_def progress_done_def
        progress_set_total_def activity_update_def activity_done_def emit_def merge_fields_def
        no_fields_def Let_def split: if_splits\<close>)

lemma progress_run_current:
  assumes "progress_run cs (p, w) = (p', w')"
    and "pg_activity p < length (activities w)"
    and "f_current (act_fields (activities w ! pg_activity p)) = Some (pg_current p)"
    and "- 9007199254740992 \<le> pg_current p"
    and "pg_current p + int (count_list cs PTick) \<le> 9007199254740992"
  shows "pg_current p' = pg_current p + int (count_list cs PTick) \<and>
         f_current (act_fields (activities w' ! pg_activity p)) = Some (pg_current p')"
  using assms
proof (induction cs arbitrary: p w)
  case Nil
  then show ?case by simp
next
  case (Cons c cs)
  obtain p1 w1 where step: "progress_apply c (p, w) = (p1, w1)" by (cases "progress_apply c (p, w)")
  with Cons.prems have run: "progress_run cs (p1, w1) = (p', w')" by simp
  from Cons.prems(5) have bound: "pg_current p + (if c = PTick then 1 else 0) \<le> 9007199254740992"
    by (simp split: if_splits)
  note s = progress_apply_current[OF step Cons.prems(2,3,4) bound]
  from s have a: "pg_activity p1 < length (activities w1)"
    and b: "f_current (act_fields (activities w1 ! pg_activity p1)) = Some (pg_current p1)" by simp_all
  from s Cons.prems(4) have lo: "- 9007199254740992 \<le> pg_current p1" by (simp split: if_splits)
  from s Cons.prems(5) have hi: "pg_current p1 + int (count_list cs PTick) \<le> 9007199254740992"
    by (simp split: if_splits)
  from Cons.IH[OF run a b lo hi] s show ?case by (simp split: if_splits)
qed

text \<open>The double nearest to \<open>2^53 + 1\<close> is \<open>2^53\<close>.\<close>

lemma double_of_int_saturates: "double_of_int 9007199254740993 = 9007199254740992"
proof -
  have "bitlen 9007199254740993 = 54"
    by (rule antisym) (simp_all add: bitlen_le_iff_power bitlen_ge_iff_power)
  then show ?thesis by (simp add: double_of_int_def rne_def Let_def)
qed

text \<open>Claim C6, as the code has it. For every progress tracker, with every total and every
  start count from \<open>-2^53\<close> on, after any sequence of calls that keeps the start count plus
  the number of its calls to \<open>tick()\<close> at or below \<open>2^53\<close>, the current count is that sum,
  and the backend's activity holds the same count; nothing compares it with the total.\<close>

theorem tick_adds_one_unbounded:
  assumes "createProgress name total' start parentSpan w = (Returned p, w1)"
    and "progress_run cs (p, w1) = (p', w2)"
    and "- 9007199254740992 \<le> (case start of None \<Rightarrow> 0 | Some s \<Rightarrow> s)"
    and "(case start of None \<Rightarrow> 0 | Some s \<Rightarrow> s) + int (count_list cs PTick) \<le> 9007199254740992"
  shows "pg_current p' = (case start of None \<Rightarrow> 0 | Some s \<Rightarrow> s) + int (count_list cs PTick) \<and>
         f_current (act_fields (activities w2 ! pg_activity p)) = Some (pg_current p')"
proof -
  from assms(1) have a: "pg_activity p < length (activities w1)"
    and b: "f_current (act_fields (activities w1 ! pg_activity p)) = Some (pg_current p)"
    and c: "pg_current p = (case start of None \<Rightarrow> 0 | Some s \<Rightarrow> s)"
    by (auto simp: createProgress_eq)
  from assms(3,4) c have lo: "- 9007199254740992 \<le> pg_current p"
    and hi: "pg_current p + int (count_list cs PTick) \<le> 9007199254740992" by simp_all
  from progress_run_current[OF assms(2) a b lo hi] c show ?thesis by simp
qed

text \<open>Claim C6, as the code has it, at three ticks from 0 with a total of 2: the count is
  3, above the total.\<close>

theorem tick_adds_one_unbounded_witness:
  "createProgress ''y'' 2 None None world0 =
     (Returned \<lparr> pg_name = ''y'', pg_span = Span ''y'' None, pg_hasStarted = False, pg_current = 0,
                 pg_total = 2, pg_activity = 0 \<rparr>,
      \<lparr> fmt_colorless = False,
        activities = [\<lparr> act_type = Progress, act_id = ''y'',
                         act_fields = \<lparr> f_status = None, f_startTime = None,
                                        f_current = Some 0, f_total = Some 2 \<rparr>,
                         act_done = False \<rparr>],
        events = [StartSpan ''y'' None] \<rparr>) \<and>
   progress_run [PTick, PTick, PTick]
     (\<lparr> pg_name = ''y'', pg_span = Span ''y'' None, pg_hasStarted = False, pg_current = 0,
        pg_total = 2, pg_activity = 0 \<rparr>,
      \<lparr> fmt_colorless = False,
        activities = [\<lparr> act_type = Progress, act_id = ''y'',
                         act_fields = \<lparr> f_status = None, f_startTime = None,
                                        f_current = Some 0, f_total = Some 2 \<rparr>,
                         act_done = False \<rparr>],
        events = [StartSpan ''y'' None] \<rparr>) =
     (\<lparr> pg_name = ''y'', pg_span = Span ''y'' None, pg_hasStarted = False, pg_current = 3,
        pg_total = 2, pg_activity = 0 \<rparr>,
      \<lparr> fmt_colorless = False,
        activities = [\<lparr> act_type = Progress, act_id = ''y'',
                         act_fields = \<lparr> f_status = None, f_startTime = None,
                                        f_current = Some 3, f_total = Some 2 \<rparr>,
                         act_done = False \<rparr>],
        events = [StartSpan ''y'' None] \<rparr>) \<and>
   (3::int) = 0 + int (count_list [PTick, PTick, PTick] PTick) \<and>
   - 9007199254740992 \<le> (0::int) \<and>
   (0::int) + int (count_list [PTick, PTick, PTick] PTick) \<le> 9007199254740992"
  using tick_adds_one_unbounded
    [of "''y''" 2 None None world0
        "\<lparr> pg_name = ''y'', pg_span = Span ''y'' None, pg_hasStarted = False, pg_current = 0,
           pg_total = 2, pg_activity = 0 \<rparr>"
        "\<lparr> fmt_colorless = False,
           activities = [\<lparr> act_type = Progress, act_id = ''y'',
                            act_fields = \<lparr> f_status = None, f_startTime = None,
                                           f_current = Some 0, f_total = Some 2 \<rparr>,
                            act_done = False \<rparr>],
           events = [StartSpan ''y'' None] \<rparr>"
        "[PTick, PTick, PTick]"
        "\<lparr> pg_name = ''y'', pg_span = Span ''y'' None, pg_hasStarted = False, pg_current = 3,
           pg_total = 2, pg_activity = 0 \<rparr>"
        "\<lparr> fmt_colorless = False,
           activities = [\<lparr> act_type = Progress, act_id = ''y'',
                            act_fields = \<lparr> f_status = None, f_startTime = None,
                                           f_current = Some 3, f_total = Some 2 \<rparr>,
                            act_done = False \<rparr>],
           events = [StartSpan ''y'' None] \<rparr>"]
  by (simp add: createProgress_eq world0_def progress_tick_def activity_update_def
        merge_fields_def no_fields_def Let_def double_of_int_def)

text \<open>Claim C6 fails as stated: from a start count of \<open>2^53\<close>, a call to \<open>tick()\<close>
  leaves the count at \<open>2^53\<close>.\<close>

theorem tick_at_2_53_counterexample:
  "fst (createProgress ''y'' 10 (Some 9007199254740992) None world0) =
     Returned \<lparr> pg_name = ''y'', pg_span = Span ''y'' None, pg_hasStarted = False,
                pg_current = 9007199254740992, pg_total = 10, pg_activity = 0 \<rparr> \<and>
   fst (progress_tick
          \<lparr> pg_name = ''y'', pg_span = Span ''y'' None, pg_hasStarted = False,
            pg_current = 9007199254740992, pg_total = 10, pg_activity = 0 \<rparr>
          (snd (createProgress ''y'' 10 (Some 9007199254740992) None world0))) =
     Returned \<lparr> pg_name = ''y'', pg_span = Span ''y'' None, pg_hasStarted = False,
                pg_current = 9007199254740992, pg_total = 10, pg_activity = 0 \<rparr>"
  by (simp add: createProgress_eq world0_def progress_tick_def Let_def double_of_int_saturates)

text \<open>Claim C9, as the code has it. The id of an activity is the name its tracker was created
  with: \<open>activityTimer\<close> and \<open>createProgress\<close> add an activity with that id to the live
  ones. The ids of the live activities stay distinct exactly when they were distinct and the
  new name is not among them.\<close>

theorem activity_id_is_name:
  "live_ids (snd (activityTimer name parentSpan w)) = live_ids w @ [name] \<and>
   live_ids (snd (createProgress name total' start parentSpan w)) = live_ids w @ [name] \<and>
   (distinct (live_ids (snd (activityTimer name parentSpan w))) \<longleftrightarrow>
      distinct (live_ids w) \<and> name \<notin> set (live_ids w)) \<and>
   (distinct (live_ids (snd (createProgress name total' start parentSpan w))) \<longleftrightarrow>
      distinct (live_ids w) \<and> name \<notin> set (live_ids w))"
  by (auto simp: activityTimer_eq createProgress_eq live_ids_def)

text \<open>Claim C9, as the code has it, at a spinner \<open>x\<close> and a progress bar \<open>y\<close>.\<close>

theorem activity_id_is_name_witness:
  "live_ids (snd (createProgress ''y'' 10 None None (snd (activityTimer ''x'' None world0)))) =
     [''x'', ''y''] \<and>
   distinct (live_ids (snd (createProgress ''y'' 10 None None (snd (activityTimer ''x'' None world0)))))"
  using activity_id_is_name [of "''x''" None world0 0 None]
    activity_id_is_name [of "''y''" None "snd (activityTimer ''x'' None world0)" 10 None]
  by (simp add: live_ids_def world0_def)

text \<open>Claim C9 fails as stated: two trackers created under the same name, neither ended, are
  two live activities with the same id.\<close>

theorem activity_id_shared_counterexample:
  "\<not> distinct (live_ids (snd (activityTimer ''x'' None (snd (activityTimer ''x'' None world0)))))"
  by (simp add: activityTimer_eq live_ids_def world0_def)

subsection \<open>Colours\<close>

lemma logs_append: "logs (xs @ ys) = logs xs @ logs ys"
  by (induction xs rule: logs.induct) simp_all

lemma report_details_logs:
  "report_details rnd details w = (out, w') \<Longrightarrow>
   fmt_colorless w' = fmt_colorless w \<and>
   (\<exists>new. events w' = events w @ new \<and> set (logs new) \<subseteq> range (rnd (fmt_colorless w)))"
  by (auto simp: report_details_eq)

lemma error_logs_aux:
  "(\<forall>out w'. error rnd args w = (out, w') \<longrightarrow>
      fmt_colorless w' = fmt_colorless w \<and>
      (\<exists>new. events w' = events w @ new \<and> set (logs new) \<subseteq> range (rnd (fmt_colorless w))))"
  "(\<forall>out w'. error_map rnd pre items w = (out, w') \<longrightarrow>
      fmt_colorless w' = fmt_colorless w \<and>
      (\<exists>new. events w' = events w @ new \<and> set (logs new) \<subseteq> range (rnd (fmt_colorless w))))"
proof (induction rnd args w and rnd pre items w rule: error_error_map.induct)
  case (1 rnd args w)
  show ?case
  proof (intro allI impI)
    fix out w' assume e: "error rnd args w = (out, w')"
    show "fmt_colorless w' = fmt_colorless w \<and>
      (\<exists>new. events w' = events w @ new \<and> set (logs new) \<subseteq> range (rnd (fmt_colorless w)))"
    proof (cases args rule: throws_on.cases)
      case (3 errorMeta err)
      show ?thesis
      proof (cases "\<exists>items. err = JArray items")
        case True
        then obtain items where items: "err = JArray items" by blast
        obtain o2 w2 where m: "error_map rnd [errorMeta] items w = (o2, w2)"
          by (cases "error_map rnd [errorMeta] items w")
        from e 3 items m have "w' = w2"
          by (auto simp: error_two_array split: outcome.splits)
        with "1.IH"(2)[OF 3 refl refl items] m show ?thesis by simp
      next
        case na: False
        show ?thesis
        proof (cases "throws_two errorMeta err")
          case True
          with na e 3 show ?thesis by (auto simp: error_two_plain_throws)
        next
          case False
          with na obtain details where
            "error rnd [errorMeta, err] w = report_details rnd details w"
            using error_two_plain_returns by blast
          with e 3 show ?thesis by (auto dest: report_details_logs)
        qed
      qed
    next
      case 1
      with e show ?thesis by (auto simp: error_other_arity dest: report_details_logs)
    next
      case (2 v)
      show ?thesis
      proof (cases "\<exists>items. v = JArray items")
        case True
        then obtain items where items: "v = JArray items" by blast
        obtain o2 w2 where m: "error_map rnd [] items w = (o2, w2)"
          by (cases "error_map rnd [] items w")
        from e 2 items m have "w' = w2"
          by (auto simp: error_one_array split: outcome.splits)
        with "1.IH"(1)[OF 2 refl items] m show ?thesis by simp
      next
        case False
        then obtain details where "error rnd [v] w = report_details rnd details w"
          using error_one_other[of v rnd w] by blast
        with e 2 show ?thesis by (auto dest: report_details_logs)
      qed
    next
      case (4 v vb vd vc)
      with e show ?thesis by (auto simp: error_other_arity dest: report_details_logs)
    qed
  qed
next
  case (2 rnd pre w)
  show ?case by simp
next
  case (3 rnd pre item items w)
  show ?case
  proof (intro allI impI)
    fix out w' assume e: "error_map rnd pre (item # items) w = (out, w')"
    obtain o1 w1 where h: "error rnd (pre @ [item]) w = (o1, w1)"
      by (cases "error rnd (pre @ [item]) w")
    from "3.IH"(1) h obtain new1 where n1: "fmt_colorless w1 = fmt_colorless w"
      "events w1 = events w @ new1" "set (logs new1) \<subseteq> range (rnd (fmt_colorless w))" by blast
    show "fmt_colorless w' = fmt_colorless w \<and>
      (\<exists>new. events w' = events w @ new \<and> set (logs new) \<subseteq> range (rnd (fmt_colorless w)))"
    proof (cases o1)
      case (Returned r)
      obtain o2 w2 where t: "error_map rnd pre items w1 = (o2, w2)"
        by (cases "error_map rnd pre items w1")
      from "3.IH"(2)[OF h[symmetric] Returned] t obtain new2 where n2: "fmt_colorless w2 = fmt_colorless w1"
        "events w2 = events w1 @ new2" "set (logs new2) \<subseteq> range (rnd (fmt_colorless w1))" by blast
      from e h Returned t have "w' = w2" by (auto split: outcome.splits)
      with n1 n2 have "fmt_colorless w' = fmt_colorless w" "events w' = events w @ (new1 @ new2)"
        "set (logs (new1 @ new2)) \<subseteq> range (rnd (fmt_colorless w))"
        by (simp_all add: logs_append)
      then show ?thesis by blast
    next
      case (Threw x)
      with e h have "w' = w1" by simp
      with n1 show ?thesis by blast
    next
      case (Exited n)
      with e h have "w' = w1" by simp
      with n1 show ?thesis by blast
    qed
  qed
qed

lemma error_logs:
  assumes "error rnd args w = (out, w')"
  shows "fmt_colorless w' = fmt_colorless w"
    and "\<exists>new. events w' = events w @ new \<and> set (logs new) \<subseteq> range (rnd (fmt_colorless w))"
  using error_logs_aux(1)[of rnd args w] assms by blast+

lemma setNoColor_eq:
  "setNoColor arg w =
     (Returned (),
      w\<lparr>events := events w @ [SetColors (case arg of None \<Rightarrow> False | Some b \<Rightarrow> b)],
        fmt_colorless := (case arg of None \<Rightarrow> False | Some b \<Rightarrow> b) \<or> fmt_colorless w\<rparr>)"
  by (cases "case arg of None \<Rightarrow> False | Some b \<Rightarrow> b")
     (simp_all add: setNoColor_def withoutColors_def emit_def Let_def)

lemma run_call_logs:
  assumes "run_call env rnd c w = (b, w')" and "fmt_colorless w"
  shows "fmt_colorless w' \<and>
         (\<exists>new. events w' = events w @ new \<and> set (logs new) \<subseteq> range (rnd True))"
proof (cases c)
  case (CallSetNoColor arg)
  with assms show ?thesis by (auto simp: setNoColor_eq)
next
  case (CallError args)
  obtain out w1 where e: "error rnd args w = (out, w1)" by (cases "error rnd args w")
  with assms CallError have "w' = w1" by simp
  with error_logs[OF e] assms(2) show ?thesis by simp
next
  case (CallPanic args)
  obtain out w1 where e: "error rnd args w = (out, w1)" by (cases "error rnd args w")
  from error_logs[OF e] assms(2) obtain new where new: "fmt_colorless w1"
    "events w1 = events w @ new" "set (logs new) \<subseteq> range (rnd True)" by auto
  from assms CallPanic e have "w' = w1 \<or> (\<exists>r. w' = w1\<lparr>events := events w1 @ [TrackError ''GENERAL_PANIC'' r]\<rparr>)"
    by (cases out) (auto simp: panic_def emit_def)
  then show ?thesis
  proof
    assume "w' = w1"
    with new show ?thesis by blast
  next
    assume "\<exists>r. w' = w1\<lparr>events := events w1 @ [TrackError ''GENERAL_PANIC'' r]\<rparr>"
    then obtain r where "w' = w1\<lparr>events := events w1 @ [TrackError ''GENERAL_PANIC'' r]\<rparr>" ..
    with new have "fmt_colorless w'" "events w' = events w @ (new @ [TrackError ''GENERAL_PANIC'' r])"
      "set (logs (new @ [TrackError ''GENERAL_PANIC'' r])) \<subseteq> range (rnd True)"
      by (simp_all add: logs_append)
    then show ?thesis by blast
  qed
next
  case (CallPanicOnBuild args)
  obtain out w1 where e: "error rnd args w = (out, w1)" by (cases "error rnd args w")
  from error_logs[OF e] assms(2) obtain new where new: "fmt_colorless w1"
    "events w1 = events w @ new" "set (logs new) \<subseteq> range (rnd True)" by auto
  from assms CallPanicOnBuild e have "w' = w1 \<or> (\<exists>r. w' = w1\<lparr>events := events w1 @ [TrackError ''BUILD_PANIC'' r]\<rparr>)"
    by (cases out) (auto simp: panicOnBuild_def emit_def Let_def split: if_splits)
  then show ?thesis
  proof
    assume "w' = w1"
    with new show ?thesis by blast
  next
    assume "\<exists>r. w' = w1\<lparr>events := events w1 @ [TrackError ''BUILD_PANIC'' r]\<rparr>"
    then obtain r where "w' = w1\<lparr>events := events w1 @ [TrackError ''BUILD_PANIC'' r]\<rparr>" ..
    with new have "fmt_colorless w'" "events w' = events w @ (new @ [TrackError ''BUILD_PANIC'' r])"
      "set (logs (new @ [TrackError ''BUILD_PANIC'' r])) \<subseteq> range (rnd True)"
      by (simp_all add: logs_append)
    then show ?thesis by blast
  qed
qed

lemma run_calls_logs:
  assumes "fmt_colorless w"
  shows "fmt_colorless (run_calls env rnd cs w) \<and>
         (\<exists>new. events (run_calls env rnd cs w) = events w @ new \<and>
                set (logs new) \<subseteq> range (rnd True))"
  using assms
proof (induction cs arbitrary: w)
  case Nil
  then show ?case by simp
next
  case (Cons c cs)
  obtain b w1 where step: "run_call env rnd c w = (b, w1)" by (cases "run_call env rnd c w")
  from run_call_logs[OF step Cons.prems] obtain new1 where n1: "fmt_colorless w1"
    "events w1 = events w @ new1" "set (logs new1) \<subseteq> range (rnd True)" by blast
  show ?case
  proof (cases b)
    case True
    with step have "run_calls env rnd (c # cs) w = w1" by simp
    with n1 show ?thesis by auto
  next
    case False
    with step have r: "run_calls env rnd (c # cs) w = run_calls env rnd cs w1" by simp
    from Cons.IH[OF n1(1)] obtain new2 where n2: "fmt_colorless (run_calls env rnd cs w1)"
      "events (run_calls env rnd cs w1) = events w1 @ new2" "set (logs new2) \<subseteq> range (rnd True)"
      by blast
    from n1 n2 have "events (run_calls env rnd cs w1) = events w @ (new1 @ new2)"
      "set (logs (new1 @ new2)) \<subseteq> range (rnd True)" by (simp_all add: logs_append)
    with n2(1) r show ?thesis by (metis (no_types))
  qed
qed

lemma has_ansi_ESC: "has_ansi s \<Longrightarrow> ESC \<in> set s"
  by (induction s rule: has_ansi.induct) auto

lemma sample_render_colorless: "\<not> has_ansi (sample_render True e)"
  using has_ansi_ESC[of "filter (\<lambda>c. c \<noteq> ESC) (case toString e of Inl x \<Rightarrow> [] | Inr t \<Rightarrow> t)"]
  by (auto simp: sample_render_def)

text \<open>Claim C7. Let the formatter render without ANSI colour codes when its colour-stripping
  flag is set. Then \<open>setNoColor(true)\<close> hands \<open>true\<close> to the backend's \<open>setColors\<close> and
  sets the flag, and in every sequence of calls on the reporter that follows, no stack that
  \<open>error\<close> logs has an ANSI colour code.\<close>

theorem setNoColor_renders_without_ansi:
  assumes "\<forall>e. \<not> has_ansi (rnd True e)"
  shows "setNoColor (Some True) w =
           (Returned (), w\<lparr>events := events w @ [SetColors True], fmt_colorless := True\<rparr>) \<and>
         (\<exists>new. events (run_calls env rnd cs (snd (setNoColor (Some True) w))) =
                  events (snd (setNoColor (Some True) w)) @ new \<and>
                list_all (\<lambda>s. \<not> has_ansi s) (logs new))"
proof -
  have c: "fmt_colorless (snd (setNoColor (Some True) w))" by (simp add: setNoColor_eq)
  from run_calls_logs[OF c, of env rnd cs] obtain new where
    "events (run_calls env rnd cs (snd (setNoColor (Some True) w))) =
       events (snd (setNoColor (Some True) w)) @ new" "set (logs new) \<subseteq> range (rnd True)"
    by blast
  moreover from this(2) assms have "list_all (\<lambda>s. \<not> has_ansi s) (logs new)"
    by (auto simp: list_all_iff)
  ultimately show ?thesis by (auto simp: setNoColor_eq)
qed

text \<open>Claim C7, at a formatter that renders in red unless the flag is set, with a call of
  \<open>setNoColor(false)\<close> between two errors.\<close>

theorem setNoColor_renders_without_ansi_witness:
  "(\<forall>e. \<not> has_ansi (sample_render True e)) \<and>
   has_ansi (sample_render False (JError ''boom'')) \<and>
   logs (events (run_calls None sample_render
           [CallError [JError ''boom''], CallSetNoColor (Some False), CallError [JError ''bang'']]
           (snd (setNoColor (Some True) world0)))) = [''Error: boom'', ''Error: bang''] \<and>
   \<not> has_ansi ''Error: boom'' \<and> \<not> has_ansi ''Error: bang''"
  using setNoColor_renders_without_ansi
    [of sample_render world0 None
        "[CallError [JError ''boom''], CallSetNoColor (Some False), CallError [JError ''bang'']]"]
    sample_render_colorless
  by (simp add: setNoColor_eq world0_def error_one_Error report_details_eq constructError_def
        sample_render_def ESC_def)

text \<open>Claim C10. After \<open>setNoColor(true)\<close>, the formatter's colour-stripping flag stays set
  through every sequence of calls on the reporter, \<open>setNoColor(false)\<close> among them.\<close>

theorem setNoColor_irreversible:
  "fmt_colorless (run_calls env rnd cs (snd (setNoColor (Some True) w)))"
proof -
  have "fmt_colorless (snd (setNoColor (Some True) w))" by (simp add: setNoColor_eq)
  then show ?thesis using run_calls_logs by blast
qed

text \<open>Claim C10, at \<open>setNoColor(false)\<close> and \<open>setNoColor()\<close> after \<open>setNoColor(true)\<close>.\<close>

theorem setNoColor_irreversible_witness:
  "fmt_colorless (run_calls None sample_render [CallSetNoColor (Some False), CallSetNoColor None]
     (snd (setNoColor (Some True) world0))) \<and>
   run_calls None sample_render [CallSetNoColor (Some False), CallSetNoColor None]
     (snd (setNoColor (Some True) world0)) =
     \<lparr> fmt_colorless = True, activities = [],
       events = [SetColors True, SetColors False, SetColors False] \<rparr>"
  using setNoColor_irreversible
    [of None sample_render "[CallSetNoColor (Some False), CallSetNoColor None]" world0]
  by (simp add: setNoColor_eq world0_def)

end
